theory Spec2Isabelle
  imports Complex_Main
begin

section \<open>JavaScript values as the server sees them\<close>

text \<open>
  The server is one JavaScript file, \<^verbatim>\<open>index.js\<close>. Strings are lists of characters; a
  \<^typ>\<open>char\<close> is read as the code unit U+0000..U+00FF, so the model covers the strings
  whose code units stay in that range. A thrown value is an error object with its
  \<^verbatim>\<open>message\<close>; \<open>TypeError\<close> is one the language itself raises (a method missing
  on a value, a value that cannot be converted to a primitive).
\<close>

datatype thrown = Error string | TypeError string

fun error_message :: "thrown \<Rightarrow> string" where
  "error_message (Error m) = m"
| "error_message (TypeError m) = m"

text \<open>
  Numbers: finite values are kept as reals and computed with exactly, next to the
  three special values of the number type.
\<close>

datatype jsnum = NaN | Fin real | PosInf | NegInf

text \<open>
  A value of a request-body field, or of a local bound from one. The multipart
  middleware stores text fields as strings, repeated or bracketed fields as arrays,
  and nested fields as objects without a prototype (\<open>VObj\<close>), which have no
  \<^verbatim>\<open>toString\<close> and no \<^verbatim>\<open>valueOf\<close>. \<open>VNum\<close> is there for the numeric default of
  \<^verbatim>\<open>delaySeconds\<close>. An absent field (\<^verbatim>\<open>undefined\<close>) is \<open>None\<close> of an option. A body that
  is not multipart can hold other values (booleans, \<^verbatim>\<open>null\<close>, ordinary objects); the only
  handler modelled here, \<^verbatim>\<open>POST /api/send\<close>, reads nothing but the truth of \<^verbatim>\<open>message\<close>
  from such a body before it fails on the missing \<^verbatim>\<open>req.files\<close>.
\<close>

datatype jsval = VStr string | VNum jsnum | VArr "jsval list" | VObj

fun num_truthy :: "jsnum \<Rightarrow> bool" where
  "num_truthy NaN = False"
| "num_truthy (Fin x) = (x \<noteq> 0)"
| "num_truthy PosInf = True"
| "num_truthy NegInf = True"

fun truthy :: "jsval \<Rightarrow> bool" where
  "truthy (VStr s) = (s \<noteq> [])"
| "truthy (VNum n) = num_truthy n"
| "truthy (VArr xs) = True"
| "truthy VObj = True"

fun truthy_opt :: "jsval option \<Rightarrow> bool" where
  "truthy_opt None = False"
| "truthy_opt (Some v) = truthy v"

subsection \<open>String helpers\<close>

definition digit :: "char \<Rightarrow> bool" where
  "digit c = (c \<in> set ''0123456789'')"

text \<open>\<^verbatim>\<open>s.replace(/[^0-9]/g, '')\<close>: every character that is not a digit is removed.\<close>

definition strip_non_digits :: "string \<Rightarrow> string" where
  "strip_non_digits s = filter digit s"

text \<open>
  \<^verbatim>\<open>s.trim()\<close> removes white space and line terminators from both ends; below U+0100
  these are tab, line feed, vertical tab, form feed, carriage return, space and the
  no-break space.
\<close>

definition js_space :: "char \<Rightarrow> bool" where
  "js_space c = (c \<in> set [CHR 0x09, CHR 0x0A, CHR 0x0B, CHR 0x0C, CHR 0x0D, CHR 0x20, CHR 0xA0])"

definition trim :: "string \<Rightarrow> string" where
  "trim s = rev (dropWhile js_space (rev (dropWhile js_space s)))"

text \<open>
  \<^verbatim>\<open>s.split(/[\n,]/)\<close>: the pieces between the separators, empty pieces included;
  the empty string gives one empty piece.
\<close>

definition separator :: "char \<Rightarrow> bool" where
  "separator c = (c = CHR 0x0A \<or> c = CHR '','')"

fun split_on :: "(char \<Rightarrow> bool) \<Rightarrow> string \<Rightarrow> string list" where
  "split_on p [] = [[]]"
| "split_on p (c # cs) =
     (if p c then [] # split_on p cs
      else (case split_on p cs of
              [] \<Rightarrow> [[c]]
            | w # ws \<Rightarrow> (c # w) # ws))"

text \<open>
  \<^verbatim>\<open>[...new Set(xs)]\<close>: a set keeps its elements in insertion order and ignores an
  element it already holds, so the first occurrence of each element stays, in place.
\<close>

definition set_add :: "'a list \<Rightarrow> 'a \<Rightarrow> 'a list" where
  "set_add s x = (if x \<in> set s then s else s @ [x])"

definition new_Set :: "'a list \<Rightarrow> 'a list" where
  "new_Set xs = foldl set_add [] xs"

section \<open>The runtime outside the repository\<close>

text \<open>
  A worksheet as the spreadsheet library presents it to \<^verbatim>\<open>eachRow\<close>: the rows that hold
  a value, in ascending order, each with its row number and its cell values from column
  A on. A workbook lists its worksheets in order, each with its id.
\<close>

datatype cell = CNull | CStr string | CNum jsnum | CBool bool | COther

record worksheet =
  ws_name :: string
  ws_rows :: "(nat \<times> cell list) list"

type_synonym workbook = "(nat \<times> worksheet) list"

text \<open>\<^verbatim>\<open>row.getCell(1).value\<close>: the value in column A, \<^verbatim>\<open>null\<close> when there is none.\<close>

fun getCell1 :: "cell list \<Rightarrow> cell" where
  "getCell1 [] = CNull"
| "getCell1 (c # cs) = c"

text \<open>
  What the code calls and the repository does not contain: the file system and the
  spreadsheet reader, the path and string builtins, and the conversions between numbers
  and strings. They are parameters of the model; every theorem holds for all of them.
\<close>

record env =
  existsSync :: "string \<Rightarrow> bool"
  readFile :: "string \<Rightarrow> thrown + workbook"
  extname :: "string \<Rightarrow> string"
  toLowerCase :: "string \<Rightarrow> string"
  numberToString :: "jsnum \<Rightarrow> string"
  stringToNumber :: "string \<Rightarrow> jsnum"

section \<open>Recipient parser\<close>

subsection \<open>\<^verbatim>\<open>validatePhoneNumber\<close> and \<^verbatim>\<open>extractNumbersFromExcel\<close>\<close>

text \<open>
  \<^verbatim>\<open>number.match(/^\+?\d{10,15}$/)\<close>: an optional leading plus sign, then ten to fifteen
  digits, and nothing else.
\<close>

definition validatePhoneNumber :: "string \<Rightarrow> bool" where
  "validatePhoneNumber number =
     (let ds = (case number of
                  [] \<Rightarrow> []
                | c # cs \<Rightarrow> if c = CHR ''+'' then cs else number)
      in list_all digit ds \<and> 10 \<le> length ds \<and> length ds \<le> 15)"

text \<open>The callback of \<^verbatim>\<open>eachRow\<close> in \<^verbatim>\<open>extractNumbersFromExcel\<close>: what one row pushes.\<close>

definition extract_row :: "env \<Rightarrow> nat \<times> cell list \<Rightarrow> string list" where
  "extract_row env r =
     (case r of (rowNumber, cells) \<Rightarrow>
        if rowNumber = 1 then []
        else (case getCell1 cells of
                CStr s \<Rightarrow> (let number = trim s in if validatePhoneNumber number then [number] else [])
              | CNum n \<Rightarrow> (let number = trim (numberToString env n)
                          in if validatePhoneNumber number then [number] else [])
              | _ \<Rightarrow> []))"

text \<open>The body of the \<^verbatim>\<open>try\<close> block: a missing file, an unreadable one and a workbook
  without sheets throw.\<close>

definition extractNumbers_try :: "env \<Rightarrow> string \<Rightarrow> thrown + string list" where
  "extractNumbers_try env filePath =
     (if \<not> existsSync env filePath then Inl (Error ''Excel file not found'')
      else (case readFile env filePath of
              Inl e \<Rightarrow> Inl e
            | Inr workbook \<Rightarrow>
                (case workbook of
                   [] \<Rightarrow> Inl (Error ''Excel file is empty or has no sheets'')
                 | (sheet_id, worksheet) # others \<Rightarrow>
                     Inr (concat (map (extract_row env) (ws_rows worksheet))))))"

text \<open>The \<^verbatim>\<open>catch\<close> turns every error into the empty list.\<close>

definition extractNumbersFromExcel :: "env \<Rightarrow> string \<Rightarrow> string list" where
  "extractNumbersFromExcel env filePath =
     (case extractNumbers_try env filePath of
        Inl e \<Rightarrow> []
      | Inr phoneNumbers \<Rightarrow> phoneNumbers)"

subsection \<open>\<^verbatim>\<open>parsePhoneNumbers\<close>\<close>

record body =
  b_message :: "jsval option"
  b_delaySeconds :: "jsval option"
  b_numbers :: "jsval option"
  b_numbersText :: "jsval option"

text \<open>
  A request: its body, \<^verbatim>\<open>req.file\<close> (the path of a single uploaded file, when a
  middleware set one) and \<^verbatim>\<open>req.files\<close> (the paths of the files uploaded under
  \<^verbatim>\<open>media\<close> and \<^verbatim>\<open>excel\<close>; \<open>None\<close> when the request is not multipart and the upload
  middleware left it alone; a field without files is the empty list, the code's
  \<^verbatim>\<open>undefined\<close>).
\<close>

record uploads =
  media :: "string list"
  excel :: "string list"

record request =
  req_body :: body
  req_file :: "string option"
  req_files :: "uploads option"

text \<open>The callback of \<^verbatim>\<open>eachRow\<close> in \<^verbatim>\<open>parsePhoneNumbers\<close>.\<close>

definition parse_row :: "env \<Rightarrow> nat \<times> cell list \<Rightarrow> string list" where
  "parse_row env r =
     (case r of (rowNumber, cells) \<Rightarrow>
        if rowNumber > 1 then
          (case getCell1 cells of
             CStr s \<Rightarrow>
               if s \<noteq> [] then
                 (let cleanNumber = strip_non_digits s in if cleanNumber \<noteq> [] then [cleanNumber] else [])
               else []
           | CNum n \<Rightarrow>
               if num_truthy n then
                 (let cleanNumber = numberToString env n in if cleanNumber \<noteq> [] then [cleanNumber] else [])
               else []
           | _ \<Rightarrow> [])
        else [])"

text \<open>The spreadsheet branch: taken when \<^verbatim>\<open>req.file\<close> has a path that ends in \<^verbatim>\<open>.xlsx\<close>.
  An unreadable file throws, and so does a workbook without a sheet of id 1
  (\<^verbatim>\<open>eachRow\<close> of \<^verbatim>\<open>undefined\<close>).\<close>

definition parse_sheet :: "env \<Rightarrow> string option \<Rightarrow> thrown + string list" where
  "parse_sheet env f =
     (case f of
        None \<Rightarrow> Inr []
      | Some p \<Rightarrow>
          if p \<noteq> [] \<and> toLowerCase env (extname env p) = ''.xlsx'' then
            (case readFile env p of
               Inl e \<Rightarrow> Inl e
             | Inr workbook \<Rightarrow>
                 (case map_of workbook 1 of
                    None \<Rightarrow> Inl (TypeError ''Cannot read properties of undefined (reading eachRow)'')
                  | Some worksheet \<Rightarrow> Inr (concat (map (parse_row env) (ws_rows worksheet)))))
          else Inr [])"

text \<open>\<^verbatim>\<open>n => n.trim().replace(/[^0-9]/g, '')\<close>: only a string has \<^verbatim>\<open>trim\<close>.\<close>

fun clean_entry :: "jsval \<Rightarrow> thrown + string" where
  "clean_entry (VStr n) = Inr (strip_non_digits (trim n))"
| "clean_entry v = Inl (TypeError ''n.trim is not a function'')"

text \<open>\<^verbatim>\<open>xs.map(f)\<close> for an \<open>f\<close> that may throw: the first throw ends the map.\<close>

fun map_throwing :: "('a \<Rightarrow> thrown + 'b) \<Rightarrow> 'a list \<Rightarrow> thrown + 'b list" where
  "map_throwing f [] = Inr []"
| "map_throwing f (x # xs) =
     (case f x of
        Inl e \<Rightarrow> Inl e
      | Inr y \<Rightarrow> (case map_throwing f xs of Inl e \<Rightarrow> Inl e | Inr ys \<Rightarrow> Inr (y # ys)))"

text \<open>The explicit list: used when \<^verbatim>\<open>numbers\<close> is a non-empty array.\<close>

fun parse_list :: "jsval option \<Rightarrow> thrown + string list" where
  "parse_list (Some (VArr ns)) =
     (if ns \<noteq> [] then
        (case map_throwing clean_entry ns of
           Inl e \<Rightarrow> Inl e
         | Inr cleaned \<Rightarrow> Inr (filter (\<lambda>n. n \<noteq> []) cleaned))
      else Inr [])"
| "parse_list v = Inr []"

text \<open>The text block: used when \<^verbatim>\<open>numbersText\<close> is truthy; only a string has \<^verbatim>\<open>split\<close>.\<close>

definition text_entries :: "string \<Rightarrow> string list" where
  "text_entries t =
     filter (\<lambda>n. n \<noteq> []) (map (\<lambda>n. strip_non_digits (trim n)) (split_on separator t))"

definition parse_text :: "jsval option \<Rightarrow> thrown + string list" where
  "parse_text v =
     (if truthy_opt v then
        (case v of
           Some (VStr t) \<Rightarrow> Inr (text_entries t)
         | _ \<Rightarrow> Inl (TypeError ''numbersText.split is not a function''))
      else Inr [])"

text \<open>
  \<^verbatim>\<open>parsePhoneNumbers(req)\<close>: spreadsheet rows, then the explicit list, then the text
  block, concatenated in this order and passed through a set.
\<close>

definition parsePhoneNumbers :: "env \<Rightarrow> request \<Rightarrow> thrown + string list" where
  "parsePhoneNumbers env req =
     (case parse_sheet env (req_file req) of
        Inl e \<Rightarrow> Inl e
      | Inr fromSheet \<Rightarrow>
          (case parse_list (b_numbers (req_body req)) of
             Inl e \<Rightarrow> Inl e
           | Inr fromList \<Rightarrow>
               (case parse_text (b_numbersText (req_body req)) of
                  Inl e \<Rightarrow> Inl e
                | Inr textNumbers \<Rightarrow> Inr (new_Set (fromSheet @ fromList @ textNumbers)))))"

section \<open>Session gateway\<close>

text \<open>
  The messaging client is the other part of the outside world. A call either throws or
  returns; the model records every call the code makes, in order, so that a theorem can
  say which calls were (not) made.
\<close>

datatype content = Text jsval | Media string jsval

datatype idfield = IdAbsent | IdString string | IdObject "string option"

text \<open>
  A group participant as the code is prepared to meet it: a plain string, or an object
  with an \<^verbatim>\<open>id\<close> (absent, a string, or an object whose \<^verbatim>\<open>_serialized\<close> may be missing)
  and possibly a \<^verbatim>\<open>_serialized\<close> field of its own.
\<close>

datatype participant = PString string | PObject idfield "string option"

text \<open>What \<^verbatim>\<open>participantId\<close> can hold: a string or an id object.\<close>

datatype ident = IStr string | IObj "string option"

datatype call =
    IsRegisteredUser string
  | FromFilePath string
  | SendMessage string content
  | GetChatById string
  | GetGroupMetadata string
  | CallParticipants
  | AwaitParticipants
  | Evaluate string
  | GetContactById ident

text \<open>
  The \<^verbatim>\<open>participants\<close> property of a chat: a function, a thenable, or anything else;
  calling or awaiting it throws or gives a participant list (\<open>None\<close>: \<^verbatim>\<open>undefined\<close>
  or \<^verbatim>\<open>null\<close>).
\<close>

datatype pprop =
    PropPlain
  | PropFunction "thrown + participant list option"
  | PropThenable "thrown + participant list option"

text \<open>
  A chat: \<open>gm_participants\<close> is \<open>Some ps\<close> when \<^verbatim>\<open>chat.groupMetadata\<close> is there and its
  \<^verbatim>\<open>participants\<close> is an array; \<open>chat_sid\<close> is \<^verbatim>\<open>chat.id._serialized\<close>.
\<close>

record chat =
  chat_name :: string
  chat_sid :: string
  gm_participants :: "participant list option"
  participants_prop :: pprop

text \<open>The contact the client returns; an empty string stands for a missing field.\<close>

record contact_info =
  ci_number :: string
  ci_name :: string
  ci_pushname :: string
  ci_isMyContact :: bool

text \<open>
  \<open>getGroupMetadata\<close> and \<open>evaluate\<close> return the participant list of their result,
  \<open>None\<close> when it is missing.
\<close>

record client =
  isRegisteredUser :: "string \<Rightarrow> thrown + bool"
  fromFilePath :: "string \<Rightarrow> thrown + string"
  clientSendMessage :: "string \<Rightarrow> content \<Rightarrow> thrown + unit"
  getChatById :: "string \<Rightarrow> thrown + chat"
  getGroupMetadata :: "string \<Rightarrow> thrown + participant list option"
  evaluate :: "string \<Rightarrow> thrown + participant list option"
  getContactById :: "ident \<Rightarrow> thrown + contact_info"

subsection \<open>\<^verbatim>\<open>sendMessage\<close>\<close>

record outcome =
  success :: bool
  phoneNumber :: string
  status :: "string option"
  error :: "string option"

text \<open>\<^verbatim>\<open>s.includes(sub)\<close>\<close>

fun str_includes :: "string \<Rightarrow> string \<Rightarrow> bool" where
  "str_includes [] sub = (sub = [])"
| "str_includes (c # cs) sub = (take (length sub) (c # cs) = sub \<or> str_includes cs sub)"

fun path_truthy :: "string option \<Rightarrow> bool" where
  "path_truthy None = False"
| "path_truthy (Some p) = (p \<noteq> [])"

definition formatNumber :: "string \<Rightarrow> string" where
  "formatNumber number =
     (if str_includes number ''@c.us'' then number else number @ ''@c.us'')"

text \<open>
  The call of \<^verbatim>\<open>client.sendMessage\<close> and the \<^verbatim>\<open>return\<close> after it; \<open>before\<close> are the
  calls made so far.
\<close>

definition send_content :: "client \<Rightarrow> call list \<Rightarrow> string \<Rightarrow> string \<Rightarrow> content \<Rightarrow> call list \<times> (thrown + outcome)" where
  "send_content cl before formattedNumber number c =
     (case clientSendMessage cl formattedNumber c of
        Inl e \<Rightarrow> (before @ [SendMessage formattedNumber c], Inl e)
      | Inr sentMessage \<Rightarrow>
          (before @ [SendMessage formattedNumber c],
           Inr \<lparr>success = True, phoneNumber = number, status = Some ''sent'', error = None\<rparr>))"

text \<open>
  The body of the \<^verbatim>\<open>try\<close> block of \<^verbatim>\<open>sendMessage\<close>: the calls made, and the outcome
  returned or the value thrown. \<^verbatim>\<open>if (mediaPath)\<close> holds for a non-empty path.
\<close>

definition send_try :: "client \<Rightarrow> string \<Rightarrow> jsval \<Rightarrow> string option \<Rightarrow> call list \<times> (thrown + outcome)" where
  "send_try cl number message mediaPath =
     (let formattedNumber = formatNumber number in
      case isRegisteredUser cl formattedNumber of
        Inl e \<Rightarrow> ([IsRegisteredUser formattedNumber], Inl e)
      | Inr isRegistered \<Rightarrow>
          if isRegistered then
            (case mediaPath of
               None \<Rightarrow>
                 send_content cl [IsRegisteredUser formattedNumber] formattedNumber number (Text message)
             | Some p \<Rightarrow>
                 if p \<noteq> [] then
                   (case fromFilePath cl p of
                      Inl e \<Rightarrow> ([IsRegisteredUser formattedNumber, FromFilePath p], Inl e)
                    | Inr m \<Rightarrow>
                        send_content cl [IsRegisteredUser formattedNumber, FromFilePath p]
                          formattedNumber number (Media m message))
                 else
                   send_content cl [IsRegisteredUser formattedNumber] formattedNumber number (Text message))
          else
            ([IsRegisteredUser formattedNumber],
             Inr \<lparr>success = False, phoneNumber = number,
                  status = Some ''not_registered'', error = None\<rparr>))"

text \<open>The \<^verbatim>\<open>catch\<close> block turns a thrown value into an outcome.\<close>

definition sendMessage :: "client \<Rightarrow> string \<Rightarrow> jsval \<Rightarrow> string option \<Rightarrow> call list \<times> outcome" where
  "sendMessage cl number message mediaPath =
     (case send_try cl number message mediaPath of
        (calls, Inr result) \<Rightarrow> (calls, result)
      | (calls, Inl e) \<Rightarrow>
          (calls, \<lparr>success = False, phoneNumber = number,
                   status = Some ''error'', error = Some (error_message e)\<rparr>))"

section \<open>Directory extractor: \<^verbatim>\<open>extractGroupContacts\<close>\<close>

record contact =
  c_id :: ident
  c_number :: string
  c_name :: string
  c_isMyContact :: bool
  c_isBusiness :: "bool option"

text \<open>
  The fallback inside the \<^verbatim>\<open>catch\<close> of the metadata fetch: the \<^verbatim>\<open>participants\<close>
  property is called when it is a function and awaited when it is a thenable; a throw
  is logged and \<^verbatim>\<open>participants\<close> keeps its initial value, the empty array.
\<close>

fun property_fallback :: "pprop \<Rightarrow> call list \<times> participant list option" where
  "property_fallback PropPlain = ([], Some [])"
| "property_fallback (PropFunction r) =
     ([CallParticipants], (case r of Inl e \<Rightarrow> Some [] | Inr ps \<Rightarrow> ps))"
| "property_fallback (PropThenable r) =
     ([AwaitParticipants], (case r of Inl e \<Rightarrow> Some [] | Inr ps \<Rightarrow> ps))"

text \<open>
  The first \<^verbatim>\<open>if\<close>/\<^verbatim>\<open>else\<close>: the metadata the chat carries, else the fetched metadata
  (\<^verbatim>\<open>metadata.participants || []\<close>), else the property.
\<close>

definition standard_methods :: "client \<Rightarrow> chat \<Rightarrow> call list \<times> participant list option" where
  "standard_methods cl ch =
     (case gm_participants ch of
        Some ps \<Rightarrow> ([], Some ps)
      | None \<Rightarrow>
          (case getGroupMetadata cl (chat_sid ch) of
             Inr metadata \<Rightarrow>
               ([GetGroupMetadata (chat_sid ch)], Some (case metadata of None \<Rightarrow> [] | Some ps \<Rightarrow> ps))
           | Inl metadataErr \<Rightarrow>
               (case property_fallback (participants_prop ch) of
                  (calls, ps) \<Rightarrow> (GetGroupMetadata (chat_sid ch) # calls, ps))))"

text \<open>\<^verbatim>\<open>!participants || participants.length === 0\<close>\<close>

fun none_found :: "participant list option \<Rightarrow> bool" where
  "none_found None = True"
| "none_found (Some ps) = (ps = [])"

text \<open>
  The second \<^verbatim>\<open>if\<close>: when nothing was found, the page is asked directly; its answer
  replaces \<^verbatim>\<open>participants\<close> only when it is a non-empty list.
\<close>

definition enumerate_participants :: "client \<Rightarrow> chat \<Rightarrow> call list \<times> participant list option" where
  "enumerate_participants cl ch =
     (case standard_methods cl ch of
        (calls, ps) \<Rightarrow>
          if none_found ps then
            (case evaluate cl (chat_sid ch) of
               Inl rawError \<Rightarrow> (calls @ [Evaluate (chat_sid ch)], ps)
             | Inr rawData \<Rightarrow>
                 (calls @ [Evaluate (chat_sid ch)], (if none_found rawData then ps else rawData)))
          else (calls, ps))"

text \<open>The identifier of a participant, \<open>None\<close> when the code finds none (\<^verbatim>\<open>undefined\<close>).\<close>

fun own_serialized :: "string option \<Rightarrow> ident option" where
  "own_serialized None = None"
| "own_serialized (Some t) = (if t \<noteq> [] then Some (IStr t) else None)"

fun participantId :: "participant \<Rightarrow> ident option" where
  "participantId (PString s) = Some (IStr s)"
| "participantId (PObject IdAbsent ser) = own_serialized ser"
| "participantId (PObject (IdString s) ser) = (if s \<noteq> [] then Some (IStr s) else own_serialized ser)"
| "participantId (PObject (IdObject None) ser) = Some (IObj None)"
| "participantId (PObject (IdObject (Some t)) ser) =
     (if t \<noteq> [] then Some (IStr t) else Some (IObj (Some t)))"

fun ident_truthy :: "ident option \<Rightarrow> bool" where
  "ident_truthy None = False"
| "ident_truthy (Some (IStr s)) = (s \<noteq> [])"
| "ident_truthy (Some (IObj so)) = True"

text \<open>\<^verbatim>\<open>s.split('@')[0]\<close>: the part before the first at sign.\<close>

definition before_at :: "string \<Rightarrow> string" where
  "before_at s = takeWhile (\<lambda>c. c \<noteq> CHR ''@'') s"

text \<open>
  The record pushed after a successful contact fetch. \<^verbatim>\<open>participantId.split\<close> is reached
  when the contact has no number, and throws when the identifier is not a string.
\<close>

definition full_record :: "ident \<Rightarrow> contact_info \<Rightarrow> thrown + contact" where
  "full_record pid info =
     (let nm = (if ci_name info \<noteq> [] then ci_name info
                else if ci_pushname info \<noteq> [] then ci_pushname info else ''Unknown'')
      in if ci_number info \<noteq> [] then
           Inr \<lparr>c_id = pid, c_number = ci_number info, c_name = nm,
                c_isMyContact = ci_isMyContact info, c_isBusiness = None\<rparr>
         else (case pid of
                 IStr s \<Rightarrow>
                   Inr \<lparr>c_id = pid, c_number = before_at s, c_name = nm,
                        c_isMyContact = ci_isMyContact info, c_isBusiness = None\<rparr>
               | IObj so \<Rightarrow> Inl (TypeError ''participantId.split is not a function'')))"

text \<open>
  The value of \<^verbatim>\<open>participant.id?._serialized || participant.id || participant\<close> in the
  \<^verbatim>\<open>catch\<close> block, when it is a string; \<open>None\<close> when it is an object, on which
  \<^verbatim>\<open>split\<close> throws.
\<close>

fun basic_id :: "participant \<Rightarrow> string option" where
  "basic_id (PString s) = Some s"
| "basic_id (PObject IdAbsent ser) = None"
| "basic_id (PObject (IdString s) ser) = (if s \<noteq> [] then Some s else None)"
| "basic_id (PObject (IdObject None) ser) = None"
| "basic_id (PObject (IdObject (Some t)) ser) = (if t \<noteq> [] then Some t else None)"

text \<open>The record of the \<^verbatim>\<open>catch\<close> block; the inner \<^verbatim>\<open>catch\<close> pushes nothing.\<close>

definition basic_record :: "participant \<Rightarrow> contact list" where
  "basic_record p =
     (case basic_id p of
        None \<Rightarrow> []
      | Some s \<Rightarrow>
          [\<lparr>c_id = IStr s, c_number = before_at s, c_name = ''Unknown'',
            c_isMyContact = False, c_isBusiness = None\<rparr>])"

text \<open>One turn of the loop over the participants: the calls made and the records pushed.\<close>

definition contact_of :: "client \<Rightarrow> participant \<Rightarrow> call list \<times> contact list" where
  "contact_of cl p =
     (case participantId p of
        None \<Rightarrow> ([], [])
      | Some pid \<Rightarrow>
          if \<not> ident_truthy (Some pid) then ([], [])
          else (case getContactById cl pid of
                  Inl err \<Rightarrow> ([GetContactById pid], basic_record p)
                | Inr info \<Rightarrow>
                    (case full_record pid info of
                       Inl err \<Rightarrow> ([GetContactById pid], basic_record p)
                     | Inr c \<Rightarrow> ([GetContactById pid], [c]))))"

datatype extraction =
    Failed string
  | Extracted string nat "contact list"

text \<open>
  \<^verbatim>\<open>extractGroupContacts(groupId)\<close>: \<open>Extracted groupName participantCount contacts\<close>
  is the result with \<^verbatim>\<open>success: true\<close>, \<open>Failed error\<close> the one with \<^verbatim>\<open>success: false\<close>.
  A \<^verbatim>\<open>participants\<close> that is \<^verbatim>\<open>undefined\<close> cannot be iterated: the outer \<^verbatim>\<open>catch\<close>.
\<close>

definition extractGroupContacts :: "client \<Rightarrow> string \<Rightarrow> call list \<times> extraction" where
  "extractGroupContacts cl groupId =
     (case getChatById cl groupId of
        Inl e \<Rightarrow> ([GetChatById groupId], Failed (error_message e))
      | Inr ch \<Rightarrow>
          (case enumerate_participants cl ch of
             (calls, None) \<Rightarrow> (GetChatById groupId # calls, Failed ''participants is not iterable'')
           | (calls, Some participants) \<Rightarrow>
               (GetChatById groupId # calls @ concat (map (\<lambda>p. fst (contact_of cl p)) participants),
                Extracted (chat_name ch) (length participants)
                  (concat (map (\<lambda>p. snd (contact_of cl p)) participants)))))"

section \<open>Spreadsheet exporter: \<^verbatim>\<open>generateExcelFile\<close>\<close>

text \<open>The headers of \<^verbatim>\<open>worksheet.columns\<close>, which the library writes into row 1.\<close>

definition header_row :: "cell list" where
  "header_row = [CStr ''Name'', CStr ''Number'', CStr ''Is Saved Contact'',
                 CStr ''Is Business'', CStr ''WhatsApp ID'']"

text \<open>\<^verbatim>\<open>worksheet.addRow(contact)\<close>: the values of the column keys, in column order.\<close>

definition contact_row :: "contact \<Rightarrow> cell list" where
  "contact_row c =
     [CStr (c_name c), CStr (c_number c), CBool (c_isMyContact c),
      (case c_isBusiness c of None \<Rightarrow> CNull | Some b \<Rightarrow> CBool b),
      (case c_id c of IStr s \<Rightarrow> CStr s | IObj so \<Rightarrow> COther)]"

text \<open>The worksheet after the columns are set and the contacts are added, one row each.\<close>

definition contacts_sheet :: "contact list \<Rightarrow> worksheet" where
  "contacts_sheet contacts =
     \<lparr>ws_name = ''Contacts'',
      ws_rows = (1, header_row) # zip [2 ..< 2 + length contacts] (map contact_row contacts)\<rparr>"

text \<open>
  \<^verbatim>\<open>generateExcelFile(contacts, filename)\<close>: the path returned and the workbook written
  there. \<open>outputDir\<close> is the \<^verbatim>\<open>exports\<close> directory, \<open>join\<close> is \<^verbatim>\<open>path.join\<close>.
\<close>

definition generateExcelFile :: "(string \<Rightarrow> string \<Rightarrow> string) \<Rightarrow> string \<Rightarrow> contact list \<Rightarrow> string \<Rightarrow> string \<times> workbook" where
  "generateExcelFile join outputDir contacts filename =
     (join outputDir filename, [(1, contacts_sheet contacts)])"

section \<open>The handler of \<^verbatim>\<open>POST /api/send\<close>\<close>

subsection \<open>Conversions and arithmetic\<close>

text \<open>
  Conversion to a string, as a template literal does it: an array joins the strings of
  its elements with commas, an object without a prototype cannot be converted.
\<close>

fun to_string :: "env \<Rightarrow> jsval \<Rightarrow> thrown + string"
  and join_strings :: "env \<Rightarrow> jsval list \<Rightarrow> thrown + string" where
  "to_string env (VStr s) = Inr s"
| "to_string env (VNum n) = Inr (numberToString env n)"
| "to_string env (VArr xs) = join_strings env xs"
| "to_string env VObj = Inl (TypeError ''Cannot convert object to primitive value'')"
| "join_strings env [] = Inr []"
| "join_strings env [x] = to_string env x"
| "join_strings env (x # y # ys) =
     (case to_string env x of
        Inl e \<Rightarrow> Inl e
      | Inr s \<Rightarrow> (case join_strings env (y # ys) of Inl e \<Rightarrow> Inl e | Inr r \<Rightarrow> Inr (s @ '','' @ r)))"

text \<open>
  Conversion to a number, as \<^verbatim>\<open>>\<close> and \<^verbatim>\<open>-\<close> do it: an array goes through its string.
\<close>

fun to_number :: "env \<Rightarrow> jsval \<Rightarrow> thrown + jsnum" where
  "to_number env (VStr s) = Inr (stringToNumber env s)"
| "to_number env (VNum n) = Inr n"
| "to_number env (VArr xs) =
     (case join_strings env xs of Inl e \<Rightarrow> Inl e | Inr s \<Rightarrow> Inr (stringToNumber env s))"
| "to_number env VObj = Inl (TypeError ''Cannot convert object to primitive value'')"

fun js_gt :: "jsnum \<Rightarrow> jsnum \<Rightarrow> bool" where
  "js_gt NaN b = False"
| "js_gt a NaN = False"
| "js_gt (Fin x) (Fin y) = (x > y)"
| "js_gt PosInf PosInf = False"
| "js_gt PosInf b = True"
| "js_gt NegInf b = False"
| "js_gt (Fin x) PosInf = False"
| "js_gt (Fin x) NegInf = True"

text \<open>\<^verbatim>\<open>a <= b\<close>, which the code does not use and a statement about it does.\<close>

fun js_le :: "jsnum \<Rightarrow> jsnum \<Rightarrow> bool" where
  "js_le NaN b = False"
| "js_le a NaN = False"
| "js_le (Fin x) (Fin y) = (x \<le> y)"
| "js_le NegInf b = True"
| "js_le PosInf PosInf = True"
| "js_le PosInf b = False"
| "js_le (Fin x) PosInf = True"
| "js_le (Fin x) NegInf = False"

fun js_neg :: "jsnum \<Rightarrow> jsnum" where
  "js_neg NaN = NaN"
| "js_neg (Fin x) = Fin (- x)"
| "js_neg PosInf = NegInf"
| "js_neg NegInf = PosInf"

fun js_add :: "jsnum \<Rightarrow> jsnum \<Rightarrow> jsnum" where
  "js_add NaN b = NaN"
| "js_add a NaN = NaN"
| "js_add (Fin x) (Fin y) = Fin (x + y)"
| "js_add PosInf NegInf = NaN"
| "js_add NegInf PosInf = NaN"
| "js_add PosInf b = PosInf"
| "js_add NegInf b = NegInf"
| "js_add (Fin x) b = b"

definition js_sub :: "jsnum \<Rightarrow> jsnum \<Rightarrow> jsnum" where
  "js_sub a b = js_add a (js_neg b)"

fun js_mul :: "jsnum \<Rightarrow> jsnum \<Rightarrow> jsnum" where
  "js_mul NaN b = NaN"
| "js_mul a NaN = NaN"
| "js_mul (Fin x) (Fin y) = Fin (x * y)"
| "js_mul (Fin x) PosInf = (if x = 0 then NaN else if x > 0 then PosInf else NegInf)"
| "js_mul (Fin x) NegInf = (if x = 0 then NaN else if x > 0 then NegInf else PosInf)"
| "js_mul PosInf (Fin y) = (if y = 0 then NaN else if y > 0 then PosInf else NegInf)"
| "js_mul NegInf (Fin y) = (if y = 0 then NaN else if y > 0 then NegInf else PosInf)"
| "js_mul PosInf PosInf = PosInf"
| "js_mul NegInf NegInf = PosInf"
| "js_mul PosInf NegInf = NegInf"
| "js_mul NegInf PosInf = NegInf"

fun js_floor :: "jsnum \<Rightarrow> jsnum" where
  "js_floor (Fin x) = Fin (of_int \<lfloor>x\<rfloor>)"
| "js_floor n = n"

subsection \<open>The dispatch loop\<close>

text \<open>
  What the loop does, in order: a sleep (with the delay handed to \<^verbatim>\<open>setTimeout\<close>, in
  milliseconds), a call of the client, a result pushed to \<^verbatim>\<open>results\<close>, an error caught
  by the \<^verbatim>\<open>catch\<close> of the loop body.
\<close>

datatype event = Sleep jsnum | Called call | Pushed outcome | Caught thrown

text \<open>
  \<^verbatim>\<open>Math.floor(Math.random() * (delaySeconds - 3 + 1)) + 3\<close>, times 1000; \<open>r\<close> is the
  value of \<^verbatim>\<open>Math.random()\<close> and \<open>d\<close> the number \<^verbatim>\<open>delaySeconds\<close> converts to.
\<close>

definition randomDelay :: "real \<Rightarrow> jsnum \<Rightarrow> jsnum" where
  "randomDelay r d =
     js_add (js_floor (js_mul (Fin r) (js_add (js_sub d (Fin 3)) (Fin 1)))) (Fin 3)"

text \<open>
  The \<^verbatim>\<open>if\<close> at the head of the loop body, for the recipient of index \<open>i\<close>: the sleep
  it makes, if any, or the error the comparison throws.
\<close>

definition delay_step :: "env \<Rightarrow> jsval \<Rightarrow> nat \<Rightarrow> real \<Rightarrow> thrown + event list" where
  "delay_step env delaySeconds i r =
     (if i > 0 then
        (case to_number env delaySeconds of
           Inl e \<Rightarrow> Inl e
         | Inr d \<Rightarrow>
             if js_gt d (Fin 3) then Inr [Sleep (js_mul (randomDelay r d) (Fin 1000))]
             else Inr [])
      else Inr [])"

text \<open>
  The loop body. The client and the random source may answer differently each time:
  \<open>cl i\<close> is the client as it answers during turn \<open>i\<close>, \<open>rnd i\<close> the random number
  drawn there.
\<close>

definition iteration :: "env \<Rightarrow> (nat \<Rightarrow> client) \<Rightarrow> (nat \<Rightarrow> real) \<Rightarrow> jsval \<Rightarrow> jsval \<Rightarrow> string option \<Rightarrow> nat \<Rightarrow> string \<Rightarrow> event list" where
  "iteration env cl rnd delaySeconds message mediaPath i number =
     (case delay_step env delaySeconds i (rnd i) of
        Inl e \<Rightarrow>
          [Caught e,
           Pushed \<lparr>success = False, phoneNumber = number, status = None,
                   error = Some (error_message e)\<rparr>]
      | Inr sleeps \<Rightarrow>
          (case sendMessage (cl i) number message mediaPath of
             (calls, result) \<Rightarrow> sleeps @ map Called calls @ [Pushed result]))"

fun dispatch :: "env \<Rightarrow> (nat \<Rightarrow> client) \<Rightarrow> (nat \<Rightarrow> real) \<Rightarrow> jsval \<Rightarrow> jsval \<Rightarrow> string option \<Rightarrow> nat \<Rightarrow> string list \<Rightarrow> event list" where
  "dispatch env cl rnd delaySeconds message mediaPath i [] = []"
| "dispatch env cl rnd delaySeconds message mediaPath i (number # rest) =
     iteration env cl rnd delaySeconds message mediaPath i number
     @ dispatch env cl rnd delaySeconds message mediaPath (Suc i) rest"

subsection \<open>The handler\<close>

record ack =
  ack_message :: string
  numbersCount :: nat
  mediaAttached :: bool
  ack_delaySeconds :: jsval

datatype response = Rejected nat string | Accepted ack

fun status_code :: "response \<Rightarrow> nat" where
  "status_code (Rejected code err) = code"
| "status_code (Accepted a) = 200"

text \<open>
  The recipients: the standalone extractor when a file was uploaded under \<^verbatim>\<open>excel\<close>,
  the unified parser otherwise.
\<close>

definition resolve_numbers :: "env \<Rightarrow> request \<Rightarrow> uploads \<Rightarrow> thrown + string list" where
  "resolve_numbers env req fs =
     (case excel fs of
        excelFilePath # others \<Rightarrow> Inr (extractNumbersFromExcel env excelFilePath)
      | [] \<Rightarrow> parsePhoneNumbers env req)"

definition first_path :: "string list \<Rightarrow> string option" where
  "first_path ps = (case ps of [] \<Rightarrow> None | p # others \<Rightarrow> Some p)"

text \<open>
  The handler: the response, and the events of the loop that runs after it. Every
  throw between the readiness check and the response ends in the outer \<^verbatim>\<open>catch\<close>,
  status 500: \<^verbatim>\<open>req.files\<close> missing, the parser throwing, \<^verbatim>\<open>delaySeconds\<close> not
  convertible to a string for the acknowledgement. \<open>isClientReady\<close> is the state of the
  flag when the request arrives.
\<close>

text \<open>\<^verbatim>\<open>const { message, delaySeconds = 1 } = req.body\<close>: the default stands in for an absent field.\<close>

definition delaySeconds_of :: "body \<Rightarrow> jsval" where
  "delaySeconds_of b = (case b_delaySeconds b of None \<Rightarrow> VNum (Fin 1) | Some v \<Rightarrow> v)"

definition api_send :: "env \<Rightarrow> (nat \<Rightarrow> client) \<Rightarrow> (nat \<Rightarrow> real) \<Rightarrow> bool \<Rightarrow> request \<Rightarrow> response \<times> event list" where
  "api_send env cl rnd isClientReady req =
     (let delaySeconds = delaySeconds_of (req_body req)
      in case b_message (req_body req) of
           None \<Rightarrow> (Rejected 400 ''Message is required'', [])
         | Some message \<Rightarrow>
             if \<not> truthy message then (Rejected 400 ''Message is required'', [])
             else if \<not> isClientReady then
               (Rejected 503 ''WhatsApp client is not ready. Please authenticate first by scanning the QR code.'', [])
             else (case req_files req of
                     None \<Rightarrow> (Rejected 500 ''Server error while sending messages'', [])
                   | Some fs \<Rightarrow>
                       (case resolve_numbers env req fs of
                          Inl e \<Rightarrow> (Rejected 500 ''Server error while sending messages'', [])
                        | Inr numbers \<Rightarrow>
                            if numbers = [] then
                              (Rejected 400 ''No valid phone numbers found. Please provide recipients.'', [])
                            else
                              (let mediaPath = first_path (media fs) in
                               case to_string env delaySeconds of
                                 Inl e \<Rightarrow> (Rejected 500 ''Server error while sending messages'', [])
                               | Inr shown \<Rightarrow>
                                   (Accepted
                                      \<lparr>ack_message =
                                         ''Started sending messages to ''
                                         @ numberToString env (Fin (real (length numbers)))
                                         @ '' recipients with random delays between 3 and ''
                                         @ shown @ '' seconds.'',
                                       numbersCount = length numbers,
                                       mediaAttached = path_truthy mediaPath,
                                       ack_delaySeconds = delaySeconds\<rparr>,
                                    dispatch env cl rnd delaySeconds message mediaPath 0 numbers)))))"

section \<open>Notions the statements use\<close>



fun is_pushed :: "event \<Rightarrow> bool" where
  "is_pushed (Pushed r) = True"
| "is_pushed e = False"


section \<open>A sample world\<close>

text \<open>
  One spreadsheet on disk, with a header and the same number in two rows; conversions
  tabulated for the values the sample runs meet; a client that knows one group.
\<close>

definition sample_sheet :: worksheet where
  "sample_sheet =
     \<lparr>ws_name = ''Sheet1'',
      ws_rows = [(1, [CStr ''Phone'']), (2, [CStr ''+919876543210'']), (3, [CStr ''+919876543210''])]\<rparr>"

definition sample_env :: env where
  "sample_env =
     \<lparr>existsSync = (\<lambda>p. p = ''uploads/list.xlsx''),
      readFile = (\<lambda>p. if p = ''uploads/list.xlsx'' then Inr [(1, sample_sheet)]
                       else Inl (Error ''File not found'')),
      extname = (\<lambda>p. dropWhile (\<lambda>c. c \<noteq> CHR ''.'') p),
      toLowerCase = (\<lambda>s. s),
      numberToString = (\<lambda>n. if n = Fin 1 then ''1'' else if n = Fin 2 then ''2''
                             else if n = Fin 10 then ''10'' else ''0''),
      stringToNumber = (\<lambda>s. if s = ''10'' then Fin 10 else if s = ''2'' then Fin 2 else NaN)\<rparr>"

definition sample_body :: body where
  "sample_body =
     \<lparr>b_message = Some (VStr ''hello''), b_delaySeconds = None,
      b_numbers = None, b_numbersText = None\<rparr>"

definition sample_chat :: chat where
  "sample_chat =
     \<lparr>chat_name = ''Team'', chat_sid = ''team@g.us'',
      gm_participants = None, participants_prop = PropPlain\<rparr>"

definition sample_client :: client where
  "sample_client =
     \<lparr>isRegisteredUser = (\<lambda>n. Inr True),
      fromFilePath = (\<lambda>p. Inr ''payload''),
      clientSendMessage = (\<lambda>n c. Inr ()),
      getChatById = (\<lambda>g. if g = ''team@g.us'' then Inr sample_chat else Inl (Error ''chat not found'')),
      getGroupMetadata = (\<lambda>g. Inl (Error ''no metadata'')),
      evaluate = (\<lambda>g. Inl (Error ''no page'')),
      getContactById = (\<lambda>i. Inl (Error ''contact not found''))\<rparr>"

definition sample_text_request :: request where
  "sample_text_request =
     \<lparr>req_body = sample_body\<lparr>b_numbersText := Some (VStr ''555-0001, 5550001'')\<rparr>,
      req_file = None,
      req_files = Some \<lparr>media = [], excel = []\<rparr>\<rparr>"

definition sample_upload_request :: request where
  "sample_upload_request =
     \<lparr>req_body = sample_body\<lparr>b_numbersText := Some (VStr ''1234567890'')\<rparr>,
      req_file = None,
      req_files = Some \<lparr>media = [], excel = [''uploads/list.xlsx'']\<rparr>\<rparr>"

text \<open>
  Clients for the group of the sample: one whose chat carries its participants, one whose
  metadata fetch returns them, one whose chat has a \<^verbatim>\<open>participants\<close> function and one
  with a thenable; one whose metadata fetch returns an empty list while the page knows a
  participant; and one whose only participant has a \<^verbatim>\<open>_serialized\<close> field and no
  \<^verbatim>\<open>id\<close>. None of them finds contact details.
\<close>

definition carried_client :: client where
  "carried_client =
     sample_client\<lparr>getChatById := (\<lambda>g. Inr (sample_chat\<lparr>gm_participants := Some [PString ''111@c.us'']\<rparr>))\<rparr>"

definition fetching_client :: client where
  "fetching_client = sample_client\<lparr>getGroupMetadata := (\<lambda>g. Inr (Some [PString ''111@c.us'']))\<rparr>"

definition calling_client :: client where
  "calling_client =
     sample_client\<lparr>getChatById :=
       (\<lambda>g. Inr (sample_chat\<lparr>participants_prop := PropFunction (Inr (Some [PString ''111@c.us'']))\<rparr>))\<rparr>"

definition awaiting_client :: client where
  "awaiting_client =
     sample_client\<lparr>getChatById :=
       (\<lambda>g. Inr (sample_chat\<lparr>participants_prop := PropThenable (Inr (Some [PString ''111@c.us'']))\<rparr>))\<rparr>"

definition empty_fetch_client :: client where
  "empty_fetch_client =
     sample_client\<lparr>getGroupMetadata := (\<lambda>g. Inr (Some [])),
                   evaluate := (\<lambda>g. Inr (Some [PObject (IdString ''999@c.us'') None]))\<rparr>"

definition serialized_only_client :: client where
  "serialized_only_client =
     sample_client\<lparr>getGroupMetadata := (\<lambda>g. Inr (Some [PObject IdAbsent (Some ''123@c.us'')]))\<rparr>"

section \<open>Properties of the recipient parser\<close>

subsection \<open>Sets and first occurrences\<close>

lemma foldl_set_add_distinct: "distinct acc \<Longrightarrow> distinct (foldl set_add acc xs)"
  by (induction xs arbitrary: acc) (auto simp: set_add_def)

lemma foldl_set_add_set: "set (foldl set_add acc xs) = set acc \<union> set xs"
  by (induction xs arbitrary: acc) (auto simp: set_add_def)

lemma new_Set_distinct: "distinct (new_Set xs)"
  by (simp add: new_Set_def foldl_set_add_distinct)

lemma new_Set_set: "set (new_Set xs) = set xs"
  by (simp add: new_Set_def foldl_set_add_set)



lemma validatePhoneNumber_nonempty: "validatePhoneNumber n \<Longrightarrow> n \<noteq> []"
  by (auto simp: validatePhoneNumber_def)

lemma extract_row_valid: "n \<in> set (extract_row env r) \<Longrightarrow> validatePhoneNumber n"
  by (cases r; cases "getCell1 (snd r)") (auto simp: extract_row_def Let_def split: if_splits)

lemma extractNumbersFromExcel_valid:
  "n \<in> set (extractNumbersFromExcel env p) \<Longrightarrow> validatePhoneNumber n"
  by (auto simp: extractNumbersFromExcel_def extractNumbers_try_def
           split: sum.splits if_splits list.splits dest: extract_row_valid)

lemma parse_row_nonempty: "n \<in> set (parse_row env r) \<Longrightarrow> n \<noteq> []"
  by (cases r; cases "getCell1 (snd r)") (auto simp: parse_row_def Let_def split: if_splits)

lemma parse_sheet_nonempty: "parse_sheet env f = Inr ns \<Longrightarrow> n \<in> set ns \<Longrightarrow> n \<noteq> []"
  by (auto simp: parse_sheet_def split: option.splits sum.splits if_splits dest: parse_row_nonempty)

lemma parse_sheet_None: "parse_sheet env None = Inr []"
  by (simp add: parse_sheet_def)

lemma map_throwing_clean_digits:
  "map_throwing clean_entry vs = Inr ys \<Longrightarrow> y \<in> set ys \<Longrightarrow> list_all digit y"
proof (induction vs arbitrary: ys)
  case Nil
  then show ?case by simp
next
  case (Cons v vs)
  then show ?case
    by (cases v) (auto simp: strip_non_digits_def list_all_iff split: sum.splits)
qed

lemma parse_list_entries:
  "parse_list v = Inr ns \<Longrightarrow> n \<in> set ns \<Longrightarrow> n \<noteq> [] \<and> list_all digit n"
  by (cases v rule: parse_list.cases)
     (auto split: if_splits sum.splits dest: map_throwing_clean_digits)

lemma text_entries_entries: "n \<in> set (text_entries t) \<Longrightarrow> n \<noteq> [] \<and> list_all digit n"
  by (auto simp: text_entries_def strip_non_digits_def list_all_iff)

lemma parse_text_entries:
  "parse_text v = Inr ns \<Longrightarrow> n \<in> set ns \<Longrightarrow> n \<noteq> [] \<and> list_all digit n"
  by (auto simp: parse_text_def split: if_splits option.splits jsval.splits
           dest: text_entries_entries)

lemma parsePhoneNumbers_Inr:
  "parsePhoneNumbers env req = Inr ns \<Longrightarrow>
   \<exists>a b c. parse_sheet env (req_file req) = Inr a
         \<and> parse_list (b_numbers (req_body req)) = Inr b
         \<and> parse_text (b_numbersText (req_body req)) = Inr c
         \<and> ns = new_Set (a @ b @ c)"
  by (auto simp: parsePhoneNumbers_def split: sum.splits)

lemma sample_upload_numbers:
  "extractNumbersFromExcel sample_env ''uploads/list.xlsx'' = [''+919876543210'', ''+919876543210'']"
  by (simp add: extractNumbersFromExcel_def extractNumbers_try_def sample_env_def sample_sheet_def
        extract_row_def validatePhoneNumber_def trim_def js_space_def digit_def)

lemma sample_text_numbers:
  "parsePhoneNumbers sample_env sample_text_request = Inr [''5550001'']"
  by (simp add: sample_text_request_def sample_body_def parsePhoneNumbers_def parse_sheet_def
        parse_text_def text_entries_def separator_def trim_def js_space_def strip_non_digits_def
        digit_def new_Set_def set_add_def)

subsection \<open>The resolved recipients\<close>

text \<open>
  Claim C1, as amended. The recipients \<^verbatim>\<open>POST /api/send\<close> resolves never hold an empty
  string. When no spreadsheet is uploaded they come from the unified parser (explicit
  list and text block; the upload middleware of this route never sets \<^verbatim>\<open>req.file\<close>):
  they hold no duplicate and only strings of digits. When a spreadsheet is uploaded
  they come from the standalone extractor: each is an optional plus sign followed by
  ten to fifteen digits.
\<close>

theorem resolved_recipients_shape:
  assumes "resolve_numbers env req fs = Inr ns"
  shows "(\<forall>n\<in>set ns. n \<noteq> [])
       \<and> (excel fs = [] \<longrightarrow> distinct ns)
       \<and> (excel fs = [] \<and> req_file req = None \<longrightarrow> (\<forall>n\<in>set ns. list_all digit n))
       \<and> (excel fs \<noteq> [] \<longrightarrow> (\<forall>n\<in>set ns. validatePhoneNumber n))"
proof (cases "excel fs")
  case Nil
  with assms have "parsePhoneNumbers env req = Inr ns"
    by (simp add: resolve_numbers_def)
  then obtain a b c where
    a: "parse_sheet env (req_file req) = Inr a" and
    b: "parse_list (b_numbers (req_body req)) = Inr b" and
    c: "parse_text (b_numbersText (req_body req)) = Inr c" and
    ns: "ns = new_Set (a @ b @ c)"
    using parsePhoneNumbers_Inr by blast
  have mem: "set ns = set a \<union> set b \<union> set c"
    by (auto simp: ns new_Set_set)
  have nonempty: "\<forall>n\<in>set ns. n \<noteq> []"
    using parse_sheet_nonempty [OF a] parse_list_entries [OF b] parse_text_entries [OF c]
    unfolding mem by blast
  have digits: "\<forall>n\<in>set ns. list_all digit n" if "req_file req = None"
  proof -
    from that a have "a = []" by (simp add: parse_sheet_None)
    then show ?thesis
      using parse_list_entries [OF b] parse_text_entries [OF c] unfolding mem by auto
  qed
  show ?thesis
    using Nil nonempty digits by (simp add: ns new_Set_distinct)
next
  case (Cons p ps)
  with assms have "ns = extractNumbersFromExcel env p"
    by (simp add: resolve_numbers_def)
  then have "\<forall>n\<in>set ns. validatePhoneNumber n"
    using extractNumbersFromExcel_valid by blast
  then show ?thesis
    using Cons validatePhoneNumber_nonempty by auto
qed

text \<open>
  The sample requests meet the hypotheses: a text block on the parser path, the sample
  spreadsheet on the extractor path.
\<close>

theorem resolved_recipients_shape_witness:
  "resolve_numbers sample_env sample_text_request \<lparr>media = [], excel = []\<rparr> = Inr [''5550001'']
   \<and> req_file sample_text_request = None
   \<and> distinct [''5550001''] \<and> list_all digit ''5550001''
   \<and> resolve_numbers sample_env sample_upload_request \<lparr>media = [], excel = [''uploads/list.xlsx'']\<rparr>
       = Inr [''+919876543210'', ''+919876543210'']
   \<and> validatePhoneNumber ''+919876543210''"
  using resolved_recipients_shape [of sample_env sample_text_request "\<lparr>media = [], excel = []\<rparr>" "[''5550001'']"]
        resolved_recipients_shape [of sample_env sample_upload_request
           "\<lparr>media = [], excel = [''uploads/list.xlsx'']\<rparr>" "[''+919876543210'', ''+919876543210'']"]
  by (simp add: resolve_numbers_def sample_upload_numbers sample_text_numbers)
     (simp add: sample_text_request_def)

text \<open>
  Claim C1 as stated fails on the extractor path: the sample spreadsheet holds
  \<^verbatim>\<open>+919876543210\<close> in rows 2 and 3, and the resolved list holds it twice, plus sign
  included.
\<close>

theorem extractor_path_counterexample:
  "resolve_numbers sample_env sample_upload_request \<lparr>media = [], excel = [''uploads/list.xlsx'']\<rparr>
     = Inr [''+919876543210'', ''+919876543210'']
   \<and> \<not> distinct [''+919876543210'', ''+919876543210'']
   \<and> \<not> list_all digit ''+919876543210''"
  by (simp add: resolve_numbers_def sample_upload_numbers digit_def)

text \<open>
  Claim C7. The text block \<^verbatim>\<open>"+1 555-000-1111, 5550002222\n5550002222"\<close>, with no
  explicit list and no spreadsheet, parses to \<^verbatim>\<open>15550001111\<close> and \<^verbatim>\<open>5550002222\<close>: split at
  the comma and the line feed, all but the digits removed, the duplicate dropped.
\<close>

theorem text_block_example:
  "parsePhoneNumbers env
     \<lparr>req_body = \<lparr>b_message = m, b_delaySeconds = d, b_numbers = None,
                  b_numbersText = Some (VStr (''+1 555-000-1111, 5550002222'' @ [CHR 0x0A] @ ''5550002222''))\<rparr>,
      req_file = None, req_files = fs\<rparr>
   = Inr [''15550001111'', ''5550002222'']"
  by (simp add: parsePhoneNumbers_def parse_sheet_def parse_text_def text_entries_def
        separator_def trim_def js_space_def strip_non_digits_def digit_def new_Set_def set_add_def)

section \<open>Properties of the dispatch loop and the handler\<close>

subsection \<open>The shape of a run\<close>


lemma iteration_Inr:
  "delay_step env d i (rnd i) = Inr sl \<Longrightarrow>
   iteration env cl rnd d m mp i n =
     sl @ map Called (fst (sendMessage (cl i) n m mp)) @ [Pushed (snd (sendMessage (cl i) n m mp))]"
  by (simp add: iteration_def split: prod.splits)

lemma iteration_Inl:
  "delay_step env d i (rnd i) = Inl e \<Longrightarrow>
   iteration env cl rnd d m mp i n =
     [Caught e, Pushed \<lparr>success = False, phoneNumber = n, status = None, error = Some (error_message e)\<rparr>]"
  by (simp add: iteration_def)






lemma api_send_Accepted:
  assumes "fst (api_send env cl rnd ready req) = Accepted k"
  shows "\<exists>m fs ns shown.
           b_message (req_body req) = Some m \<and> truthy m \<and> ready
         \<and> req_files req = Some fs \<and> resolve_numbers env req fs = Inr ns \<and> ns \<noteq> []
         \<and> to_string env (delaySeconds_of (req_body req)) = Inr shown
         \<and> snd (api_send env cl rnd ready req) =
             dispatch env cl rnd (delaySeconds_of (req_body req)) m (first_path (media fs)) 0 ns"
  using assms
  by (auto simp: api_send_def Let_def split: option.splits if_splits sum.splits)

lemma sample_text_fields:
  "req_files sample_text_request = Some \<lparr>media = [], excel = []\<rparr>"
  "b_message (req_body sample_text_request) = Some (VStr ''hello'')"
  "b_delaySeconds (req_body sample_text_request) = None"
  by (simp_all add: sample_text_request_def sample_body_def)




subsection \<open>The order of the sends\<close>




subsection \<open>The delays\<close>

lemma js_le_not_gt: "js_le n (Fin 3) \<Longrightarrow> \<not> js_gt n (Fin 3)"
  by (cases n) auto

lemma delay_step_first: "delay_step env d 0 r = Inr []"
  by (simp add: delay_step_def)

lemma delay_step_not_greater:
  "to_number env d = Inr n \<Longrightarrow> \<not> js_gt n (Fin 3) \<Longrightarrow> delay_step env d i r = Inr []"
  by (simp add: delay_step_def)

lemma delay_step_sleep:
  "delay_step env d i r = Inr sl \<Longrightarrow> e \<in> set sl \<Longrightarrow>
   \<exists>n. to_number env d = Inr n \<and> js_gt n (Fin 3) \<and> e = Sleep (js_mul (randomDelay r n) (Fin 1000))"
  by (auto simp: delay_step_def split: if_splits sum.splits)

lemma iteration_sleep:
  assumes "Sleep ms \<in> set (iteration env cl rnd d m mp i n)"
  shows "\<exists>sl. delay_step env d i (rnd i) = Inr sl \<and> Sleep ms \<in> set sl"
proof (cases "delay_step env d i (rnd i)")
  case (Inl e)
  with assms show ?thesis by (simp add: iteration_Inl)
next
  case (Inr sl)
  with assms show ?thesis by (auto simp: iteration_Inr)
qed

lemma dispatch_sleep:
  "Sleep ms \<in> set (dispatch env cl rnd d m mp i ns) \<Longrightarrow>
   \<exists>j sl. delay_step env d j (rnd j) = Inr sl \<and> Sleep ms \<in> set sl"
proof (induction ns arbitrary: i)
  case Nil
  then show ?case by simp
next
  case (Cons n ns)
  then show ?case using iteration_sleep by (fastforce simp: )
qed

lemma randomDelay_10:
  assumes "0 \<le> r" "r < 1"
  shows "\<exists>k::int. 3 \<le> k \<and> k \<le> 10 \<and> js_mul (randomDelay r (Fin 10)) (Fin 1000) = Fin (1000 * real_of_int k)"
proof -
  have lo: "0 \<le> \<lfloor>r * 8\<rfloor>" using assms by simp
  have "r * 8 < 8" using assms by simp
  then have hi: "\<lfloor>r * 8\<rfloor> \<le> 7" by linarith
  have "js_mul (randomDelay r (Fin 10)) (Fin 1000) = Fin (1000 * real_of_int (\<lfloor>r * 8\<rfloor> + 3))"
    by (simp add: randomDelay_def js_sub_def)
  with lo hi show ?thesis by (intro exI [of _ "\<lfloor>r * 8\<rfloor> + 3"]) simp
qed

lemma first_turn_prefix:
  "takeWhile (\<lambda>e. \<not> is_pushed e) (dispatch env cl rnd d m mp 0 (n # ns))
     = map Called (fst (sendMessage (cl 0) n m mp))"
proof -
  let ?calls = "map Called (fst (sendMessage (cl 0) n m mp))"
  let ?rest = "Pushed (snd (sendMessage (cl 0) n m mp)) # dispatch env cl rnd d m mp (Suc 0) ns"
  have "takeWhile (\<lambda>e. \<not> is_pushed e) (?calls @ ?rest)
          = ?calls @ takeWhile (\<lambda>e. \<not> is_pushed e) ?rest"
    by (rule takeWhile_append2) auto
  then show ?thesis
    by (simp add: iteration_Inr [OF delay_step_first])
qed

lemma sample_delay_run:
  "dispatch sample_env (\<lambda>i. sample_client) (\<lambda>i. 1 / 2) (VStr ''10'') (VStr ''hello'') None 0 [''111'', ''222'']
    = [Called (IsRegisteredUser ''111@c.us''),
       Called (SendMessage ''111@c.us'' (Text (VStr ''hello''))),
       Pushed \<lparr>success = True, phoneNumber = ''111'', status = Some ''sent'', error = None\<rparr>,
       Sleep (Fin 7000),
       Called (IsRegisteredUser ''222@c.us''),
       Called (SendMessage ''222@c.us'' (Text (VStr ''hello''))),
       Pushed \<lparr>success = True, phoneNumber = ''222'', status = Some ''sent'', error = None\<rparr>]"
  by (simp add: sample_env_def iteration_def delay_step_def randomDelay_def js_sub_def Let_def
        sendMessage_def send_try_def send_content_def formatNumber_def sample_client_def)

lemma sample_short_delay_run:
  "dispatch sample_env (\<lambda>i. sample_client) (\<lambda>i. 1 / 2) (VStr ''2'') (VStr ''hello'') None 0 [''111'', ''222'']
    = [Called (IsRegisteredUser ''111@c.us''),
       Called (SendMessage ''111@c.us'' (Text (VStr ''hello''))),
       Pushed \<lparr>success = True, phoneNumber = ''111'', status = Some ''sent'', error = None\<rparr>,
       Called (IsRegisteredUser ''222@c.us''),
       Called (SendMessage ''222@c.us'' (Text (VStr ''hello''))),
       Pushed \<lparr>success = True, phoneNumber = ''222'', status = Some ''sent'', error = None\<rparr>]"
  by (simp add: sample_env_def iteration_def delay_step_def randomDelay_def js_sub_def Let_def
        sendMessage_def send_try_def send_content_def formatNumber_def sample_client_def)

text \<open>
  Claim C2. In the loop of \<^verbatim>\<open>POST /api/send\<close>: no sleep comes before the first result
  is pushed; when \<^verbatim>\<open>delaySeconds\<close> is a number at most 3 there is no sleep at all; when
  it is 10, then whatever the random source returns in the interval from 0 to 1, 1
  excluded, every sleep lasts a whole number of seconds from 3 to 10.
\<close>

theorem dispatch_delays:
  "(\<forall>ms. Sleep ms \<notin> set (takeWhile (\<lambda>e. \<not> is_pushed e) (dispatch env cl rnd d m mp 0 ns)))
   \<and> (to_number env d = Inr n \<and> js_le n (Fin 3)
        \<longrightarrow> (\<forall>ms. Sleep ms \<notin> set (dispatch env cl rnd d m mp i ns)))
   \<and> (to_number env d = Inr (Fin 10) \<and> (\<forall>j. 0 \<le> rnd j \<and> rnd j < 1)
        \<longrightarrow> (\<forall>ms. Sleep ms \<in> set (dispatch env cl rnd d m mp i ns)
               \<longrightarrow> (\<exists>k::int. 3 \<le> k \<and> k \<le> 10 \<and> ms = Fin (1000 * real_of_int k))))"
proof (intro conjI impI allI)
  fix ms
  show "Sleep ms \<notin> set (takeWhile (\<lambda>e. \<not> is_pushed e) (dispatch env cl rnd d m mp 0 ns))"
  proof (cases ns)
    case Nil
    then show ?thesis by simp
  next
    case (Cons x xs)
    have "Sleep ms \<notin> set (map Called (fst (sendMessage (cl 0) x m mp)))"
      by auto
    then show ?thesis
      unfolding Cons first_turn_prefix .
  qed
next
  fix ms
  assume "to_number env d = Inr n \<and> js_le n (Fin 3)"
  then have "delay_step env d j r = Inr []" for j r
    using delay_step_not_greater js_le_not_gt by blast
  then show "Sleep ms \<notin> set (dispatch env cl rnd d m mp i ns)"
    using dispatch_sleep by fastforce
next
  fix ms
  assume h: "to_number env d = Inr (Fin 10) \<and> (\<forall>j. 0 \<le> rnd j \<and> rnd j < 1)"
    and "Sleep ms \<in> set (dispatch env cl rnd d m mp i ns)"
  then obtain j sl where "delay_step env d j (rnd j) = Inr sl" "Sleep ms \<in> set sl"
    using dispatch_sleep by blast
  then have "ms = js_mul (randomDelay (rnd j) (Fin 10)) (Fin 1000)"
    using delay_step_sleep h by fastforce
  then show "\<exists>k::int. 3 \<le> k \<and> k \<le> 10 \<and> ms = Fin (1000 * real_of_int k)"
    using randomDelay_10 h by blast
qed

text \<open>
  Two sample runs over two recipients meet the hypotheses: with \<^verbatim>\<open>delaySeconds = "2"\<close>
  there is no sleep, with \<^verbatim>\<open>delaySeconds = "10"\<close> and the random number one half the
  one sleep lasts 7 seconds.
\<close>

theorem dispatch_delays_witness:
  "to_number sample_env (VStr ''2'') = Inr (Fin 2) \<and> js_le (Fin 2) (Fin 3)
   \<and> Sleep (Fin 7000) \<notin> set (dispatch sample_env (\<lambda>i. sample_client) (\<lambda>i. 1 / 2) (VStr ''2'') (VStr ''hello'') None 0 [''111'', ''222''])
   \<and> to_number sample_env (VStr ''10'') = Inr (Fin 10)
   \<and> Sleep (Fin 7000) \<in> set (dispatch sample_env (\<lambda>i. sample_client) (\<lambda>i. 1 / 2) (VStr ''10'') (VStr ''hello'') None 0 [''111'', ''222''])
   \<and> (\<exists>k::int. 3 \<le> k \<and> k \<le> 10 \<and> Fin 7000 = Fin (1000 * real_of_int k))"
  using dispatch_delays [of sample_env "\<lambda>i. sample_client" "\<lambda>i. 1 / 2" "VStr ''2''" "VStr ''hello''" None
          "[''111'', ''222'']" "Fin 2" 0]
        dispatch_delays [of sample_env "\<lambda>i. sample_client" "\<lambda>i. 1 / 2" "VStr ''10''" "VStr ''hello''" None
          "[''111'', ''222'']" "Fin 10" 0]
  by (simp only: sample_delay_run sample_short_delay_run) (simp add: sample_env_def)

subsection \<open>Errors in the delay computation\<close>

lemma to_string_to_number: "to_string env v = Inr s \<Longrightarrow> \<exists>n. to_number env v = Inr n"
  by (cases v) auto

lemma delay_step_converted:
  "to_number env d = Inr n \<Longrightarrow> \<exists>sl. delay_step env d i r = Inr sl"
  by (simp add: delay_step_def)

lemma iteration_caught:
  assumes "Caught e \<in> set (iteration env cl rnd d m mp i n)"
  shows "\<exists>e'. delay_step env d i (rnd i) = Inl e'"
proof (cases "delay_step env d i (rnd i)")
  case (Inl e')
  then show ?thesis by blast
next
  case (Inr sl)
  then have "\<forall>x\<in>set sl. \<exists>ms. x = Sleep ms"
    using delay_step_sleep by blast
  with assms Inr show ?thesis by (auto simp: iteration_Inr)
qed

lemma dispatch_caught:
  "Caught e \<in> set (dispatch env cl rnd d m mp i ns) \<Longrightarrow> \<exists>j e'. delay_step env d j (rnd j) = Inl e'"
proof (induction ns arbitrary: i)
  case Nil
  then show ?case by simp
next
  case (Cons n ns)
  then show ?case using iteration_caught by fastforce
qed

lemma api_send_Rejected:
  "fst (api_send env cl rnd ready req) = Rejected c err \<Longrightarrow> snd (api_send env cl rnd ready req) = []"
  by (auto simp: api_send_def Let_def split: option.splits if_splits sum.splits)

lemma api_send_no_caught: "Caught e \<notin> set (snd (api_send env cl rnd ready req))"
proof (cases "fst (api_send env cl rnd ready req)")
  case (Rejected c err)
  then show ?thesis by (simp add: api_send_Rejected)
next
  case (Accepted k)
  from api_send_Accepted [OF Accepted] obtain m and fs :: uploads and ns shown where
    shown: "to_string env (delaySeconds_of (req_body req)) = Inr shown" and
    run: "snd (api_send env cl rnd ready req) =
            dispatch env cl rnd (delaySeconds_of (req_body req)) m (first_path (media fs)) 0 ns"
    by blast
  from shown obtain n where "to_number env (delaySeconds_of (req_body req)) = Inr n"
    using to_string_to_number by blast
  then have ok: "\<exists>sl. delay_step env (delaySeconds_of (req_body req)) j r = Inr sl" for j r
    using delay_step_converted by blast
  show ?thesis
  proof
    assume "Caught e \<in> set (snd (api_send env cl rnd ready req))"
    then have "Caught e \<in> set (dispatch env cl rnd (delaySeconds_of (req_body req)) m (first_path (media fs)) 0 ns)"
      by (simp add: run)
    then obtain j e' where "delay_step env (delaySeconds_of (req_body req)) j (rnd j) = Inl e'"
      using dispatch_caught by blast
    with ok [of j "rnd j"] show False by auto
  qed
qed

lemma api_send_default_no_sleep:
  assumes "b_delaySeconds (req_body req) = None"
  shows "Sleep ms \<notin> set (snd (api_send env cl rnd ready req))"
proof (cases "fst (api_send env cl rnd ready req)")
  case (Rejected c err)
  then show ?thesis by (simp add: api_send_Rejected)
next
  case (Accepted k)
  from api_send_Accepted [OF Accepted] obtain m and fs :: uploads and ns where
    "snd (api_send env cl rnd ready req) =
       dispatch env cl rnd (delaySeconds_of (req_body req)) m (first_path (media fs)) 0 ns"
    by blast
  with assms have
    run: "snd (api_send env cl rnd ready req) =
            dispatch env cl rnd (VNum (Fin 1)) m (first_path (media fs)) 0 ns"
    by (simp add: delaySeconds_of_def)
  have ok: "delay_step env (VNum (Fin 1)) j r = Inr []" for j r
    by (simp add: delay_step_def)
  show ?thesis
  proof
    assume "Sleep ms \<in> set (snd (api_send env cl rnd ready req))"
    then have "Sleep ms \<in> set (dispatch env cl rnd (VNum (Fin 1)) m (first_path (media fs)) 0 ns)"
      by (simp add: run)
    then obtain j sl where "delay_step env (VNum (Fin 1)) j (rnd j) = Inr sl" "Sleep ms \<in> set sl"
      using dispatch_sleep by blast
    with ok [of j "rnd j"] show False by auto
  qed
qed

text \<open>
  Claim C10. Whatever the request holds in \<^verbatim>\<open>delaySeconds\<close>, no turn of the loop that
  \<^verbatim>\<open>POST /api/send\<close> runs ends in the \<^verbatim>\<open>catch\<close> of the loop body: a value the
  comparison would throw on (an object without a prototype, alone or in an array)
  already fails the acknowledgement, which converts it to a string, and the loop never
  starts. A string, numeric or not, never makes the delay computation throw. A value
  whose number is not greater than 3, \<^verbatim>\<open>NaN\<close> included, gives no delay, and so does the
  absent field, which defaults to 1.
\<close>

theorem delay_never_throws:
  "(\<forall>e. Caught e \<notin> set (snd (api_send env cl rnd ready req)))
   \<and> (\<exists>sl. delay_step env (VStr s) i r = Inr sl)
   \<and> (to_number env d = Inr n \<and> \<not> js_gt n (Fin 3) \<longrightarrow> delay_step env d i r = Inr [])
   \<and> (b_delaySeconds (req_body req) = None
        \<longrightarrow> (\<forall>ms. Sleep ms \<notin> set (snd (api_send env cl rnd ready req))))"
  using api_send_no_caught api_send_default_no_sleep delay_step_not_greater
  by (simp add: delay_step_converted)

text \<open>
  The string \<^verbatim>\<open>soon\<close> converts to \<^verbatim>\<open>NaN\<close> in the sample runtime and gives no delay; the
  sample text request has no \<^verbatim>\<open>delaySeconds\<close> and its run has no sleep.
\<close>

theorem delay_never_throws_witness:
  "to_number sample_env (VStr ''soon'') = Inr NaN \<and> \<not> js_gt NaN (Fin 3)
   \<and> delay_step sample_env (VStr ''soon'') 1 (1 / 2) = Inr []
   \<and> b_delaySeconds (req_body sample_text_request) = None
   \<and> Sleep (Fin 3000) \<notin> set (snd (api_send sample_env (\<lambda>i. sample_client) (\<lambda>i. 0) True sample_text_request))"
  using delay_never_throws [of sample_env "\<lambda>i. sample_client" "\<lambda>i. 0" True sample_text_request
          "''soon''" 1 "1 / 2" "VStr ''soon''" NaN]
  by (simp add: sample_text_fields) (simp add: sample_env_def)

subsection \<open>Status codes\<close>

text \<open>
  Claim C4, as amended. \<^verbatim>\<open>POST /api/send\<close> answers 400 when the message is missing or
  empty, ready or not; 503 when the message is there and the client is not ready,
  whatever the recipients; and 400 when the message is there, the client is ready and
  the recipients resolve to the empty list. In none of these cases does the loop run.
\<close>

theorem send_status_codes:
  "(\<not> truthy_opt (b_message (req_body req))
      \<longrightarrow> api_send env cl rnd ready req = (Rejected 400 ''Message is required'', []))
   \<and> (truthy_opt (b_message (req_body req)) \<and> \<not> ready
      \<longrightarrow> status_code (fst (api_send env cl rnd ready req)) = 503
          \<and> snd (api_send env cl rnd ready req) = [])
   \<and> (truthy_opt (b_message (req_body req)) \<and> ready
        \<and> req_files req = Some fs \<and> resolve_numbers env req fs = Inr []
      \<longrightarrow> api_send env cl rnd ready req
            = (Rejected 400 ''No valid phone numbers found. Please provide recipients.'', []))"
  by (cases "b_message (req_body req)") (simp_all add: api_send_def)

text \<open>
  An empty message with a ready client, the sample text request with a client that is
  not ready, and a request without recipients with a ready client.
\<close>

theorem send_status_codes_witness:
  "\<not> truthy_opt (b_message (req_body (sample_text_request\<lparr>req_body := sample_body\<lparr>b_message := Some (VStr '''')\<rparr>\<rparr>)))
   \<and> status_code (fst (api_send sample_env (\<lambda>i. sample_client) (\<lambda>i. 0) True
        (sample_text_request\<lparr>req_body := sample_body\<lparr>b_message := Some (VStr '''')\<rparr>\<rparr>))) = 400
   \<and> truthy_opt (b_message (req_body sample_text_request))
   \<and> status_code (fst (api_send sample_env (\<lambda>i. sample_client) (\<lambda>i. 0) False sample_text_request)) = 503
   \<and> req_files (sample_text_request\<lparr>req_body := sample_body\<rparr>) = Some \<lparr>media = [], excel = []\<rparr>
   \<and> resolve_numbers sample_env (sample_text_request\<lparr>req_body := sample_body\<rparr>) \<lparr>media = [], excel = []\<rparr> = Inr []
   \<and> status_code (fst (api_send sample_env (\<lambda>i. sample_client) (\<lambda>i. 0) True
        (sample_text_request\<lparr>req_body := sample_body\<rparr>))) = 400"
  using send_status_codes [of "sample_text_request\<lparr>req_body := sample_body\<lparr>b_message := Some (VStr '''')\<rparr>\<rparr>"
          sample_env "\<lambda>i. sample_client" "\<lambda>i. 0" True "\<lparr>media = [], excel = []\<rparr>"]
        send_status_codes [of sample_text_request sample_env "\<lambda>i. sample_client" "\<lambda>i. 0" False
          "\<lparr>media = [], excel = []\<rparr>"]
        send_status_codes [of "sample_text_request\<lparr>req_body := sample_body\<rparr>"
          sample_env "\<lambda>i. sample_client" "\<lambda>i. 0" True "\<lparr>media = [], excel = []\<rparr>"]
  by (simp add: sample_text_fields)
     (simp add: sample_text_request_def sample_body_def resolve_numbers_def parsePhoneNumbers_def
        parse_sheet_def parse_text_def new_Set_def)

text \<open>
  Claim C4 as stated fails where its cases overlap: with the message missing and the
  client not ready the answer is 400, not 503, since the message is checked first.
\<close>

theorem send_status_codes_counterexample:
  "status_code (fst (api_send sample_env (\<lambda>i. sample_client) (\<lambda>i. 0) False
      (sample_text_request\<lparr>req_body := sample_body\<lparr>b_message := None\<rparr>\<rparr>))) = 400
   \<and> status_code (fst (api_send sample_env (\<lambda>i. sample_client) (\<lambda>i. 0) False
      (sample_text_request\<lparr>req_body := sample_body\<lparr>b_message := None\<rparr>\<rparr>))) \<noteq> 503"
  by (simp add: api_send_def)

section \<open>Properties of the session gateway\<close>

lemma send_try_sources:
  "snd (send_try cl number message mediaPath) = Inl e \<Longrightarrow>
     isRegisteredUser cl (formatNumber number) = Inl e
   \<or> (\<exists>p. mediaPath = Some p \<and> fromFilePath cl p = Inl e)
   \<or> (\<exists>c. clientSendMessage cl (formatNumber number) c = Inl e)"
  by (cases mediaPath)
     (auto simp: send_try_def send_content_def Let_def split: sum.splits if_splits)

text \<open>
  Claim C5. For every phone number, message and media path: when the client reports the
  number as not registered, \<^verbatim>\<open>sendMessage\<close> makes the registration check and no other
  call, and returns \<^verbatim>\<open>not_registered\<close> with \<^verbatim>\<open>success\<close> false. Whatever the \<^verbatim>\<open>try\<close> block
  throws becomes the outcome \<^verbatim>\<open>error\<close> with \<^verbatim>\<open>success\<close> false and the message of the
  thrown value; the block throws exactly what the registration check, the loading of
  the media or the send throws. \<^verbatim>\<open>sendMessage\<close> returns an outcome in every case.
\<close>

theorem sendMessage_outcomes:
  "(isRegisteredUser cl (formatNumber number) = Inr False
      \<longrightarrow> sendMessage cl number message mediaPath
            = ([IsRegisteredUser (formatNumber number)],
               \<lparr>success = False, phoneNumber = number, status = Some ''not_registered'', error = None\<rparr>))
   \<and> (snd (send_try cl number message mediaPath) = Inl e
      \<longrightarrow> snd (sendMessage cl number message mediaPath)
            = \<lparr>success = False, phoneNumber = number, status = Some ''error'',
               error = Some (error_message e)\<rparr>)
   \<and> (isRegisteredUser cl (formatNumber number) = Inl e
      \<longrightarrow> send_try cl number message mediaPath = ([IsRegisteredUser (formatNumber number)], Inl e))
   \<and> (isRegisteredUser cl (formatNumber number) = Inr True \<and> \<not> path_truthy mediaPath
        \<and> clientSendMessage cl (formatNumber number) (Text message) = Inl e
      \<longrightarrow> snd (send_try cl number message mediaPath) = Inl e)
   \<and> (isRegisteredUser cl (formatNumber number) = Inr True \<and> mediaPath = Some p \<and> p \<noteq> []
        \<and> fromFilePath cl p = Inl e
      \<longrightarrow> snd (send_try cl number message mediaPath) = Inl e)
   \<and> (isRegisteredUser cl (formatNumber number) = Inr True \<and> mediaPath = Some p \<and> p \<noteq> []
        \<and> fromFilePath cl p = Inr m \<and> clientSendMessage cl (formatNumber number) (Media m message) = Inl e
      \<longrightarrow> snd (send_try cl number message mediaPath) = Inl e)
   \<and> status (snd (sendMessage cl number message mediaPath))
        \<in> {Some ''sent'', Some ''not_registered'', Some ''error''}"
  by (cases mediaPath)
     (auto simp: sendMessage_def send_try_def send_content_def Let_def split: prod.splits sum.splits)

text \<open>
  One client for each hypothesis: not registered, a failing registration check, a
  failing send without and with media, a failing load of the media.
\<close>

theorem sendMessage_outcomes_witness:
  "sendMessage (sample_client\<lparr>isRegisteredUser := (\<lambda>n. Inr False)\<rparr>) ''111'' (VStr ''hello'') None
     = ([IsRegisteredUser ''111@c.us''],
        \<lparr>success = False, phoneNumber = ''111'', status = Some ''not_registered'', error = None\<rparr>)
   \<and> snd (sendMessage (sample_client\<lparr>isRegisteredUser := (\<lambda>n. Inl (Error ''Evaluation failed''))\<rparr>)
          ''111'' (VStr ''hello'') None)
     = \<lparr>success = False, phoneNumber = ''111'', status = Some ''error'', error = Some ''Evaluation failed''\<rparr>
   \<and> snd (send_try (sample_client\<lparr>clientSendMessage := (\<lambda>n c. Inl (Error ''Protocol error''))\<rparr>)
          ''111'' (VStr ''hello'') None)
     = Inl (Error ''Protocol error'')
   \<and> snd (send_try (sample_client\<lparr>fromFilePath := (\<lambda>p. Inl (Error ''ENOENT''))\<rparr>)
          ''111'' (VStr ''hello'') (Some ''uploads/a.png''))
     = Inl (Error ''ENOENT'')
   \<and> snd (send_try (sample_client\<lparr>clientSendMessage := (\<lambda>n c. Inl (Error ''Protocol error''))\<rparr>)
          ''111'' (VStr ''hello'') (Some ''uploads/a.png''))
     = Inl (Error ''Protocol error'')"
  using sendMessage_outcomes [of "sample_client\<lparr>isRegisteredUser := (\<lambda>n. Inr False)\<rparr>"
          "''111''" "VStr ''hello''" None]
        sendMessage_outcomes [of "sample_client\<lparr>isRegisteredUser := (\<lambda>n. Inl (Error ''Evaluation failed''))\<rparr>"
          "''111''" "VStr ''hello''" None "Error ''Evaluation failed''"]
        sendMessage_outcomes [of "sample_client\<lparr>clientSendMessage := (\<lambda>n c. Inl (Error ''Protocol error''))\<rparr>"
          "''111''" "VStr ''hello''" None "Error ''Protocol error''"]
        sendMessage_outcomes [of "sample_client\<lparr>fromFilePath := (\<lambda>p. Inl (Error ''ENOENT''))\<rparr>"
          "''111''" "VStr ''hello''" "Some ''uploads/a.png''" "Error ''ENOENT''" "''uploads/a.png''"]
        sendMessage_outcomes [of "sample_client\<lparr>clientSendMessage := (\<lambda>n c. Inl (Error ''Protocol error''))\<rparr>"
          "''111''" "VStr ''hello''" "Some ''uploads/a.png''" "Error ''Protocol error''" "''uploads/a.png''" "''payload''"]
  by (simp add: sample_client_def formatNumber_def)

section \<open>Properties of the directory extractor\<close>

lemma contact_of_calls: "c \<in> set (fst (contact_of cl p)) \<Longrightarrow> \<exists>i. c = GetContactById i"
  by (auto simp: contact_of_def split: option.splits if_splits sum.splits)

lemma enumerate_carried:
  "gm_participants ch = Some ps \<Longrightarrow> c \<in> set (fst (enumerate_participants cl ch)) \<Longrightarrow> c = Evaluate (chat_sid ch)"
  by (auto simp: enumerate_participants_def standard_methods_def split: if_splits sum.splits)

lemma enumerate_fetched:
  "gm_participants ch = None \<Longrightarrow> getGroupMetadata cl (chat_sid ch) = Inr (Some ps) \<Longrightarrow> ps \<noteq> [] \<Longrightarrow>
   enumerate_participants cl ch = ([GetGroupMetadata (chat_sid ch)], Some ps)"
  by (simp add: enumerate_participants_def standard_methods_def)

lemma enumerate_property:
  "gm_participants ch = None \<Longrightarrow> getGroupMetadata cl (chat_sid ch) = Inl e \<Longrightarrow>
   \<exists>rest. fst (enumerate_participants cl ch)
           = GetGroupMetadata (chat_sid ch) # fst (property_fallback (participants_prop ch)) @ rest
        \<and> (rest = [] \<or> rest = [Evaluate (chat_sid ch)])"
  by (auto simp: enumerate_participants_def standard_methods_def split: prod.splits sum.splits)

lemma extract_calls:
  "getChatById cl groupId = Inr ch \<Longrightarrow>
   \<exists>tail. fst (extractGroupContacts cl groupId)
           = GetChatById groupId # fst (enumerate_participants cl ch) @ tail
        \<and> (\<forall>c\<in>set tail. \<exists>i. c = GetContactById i)"
  by (auto simp: extractGroupContacts_def split: prod.splits option.splits dest: contact_of_calls)

lemma carried_run:
  "extractGroupContacts carried_client ''team@g.us''
     = ([GetChatById ''team@g.us'', GetContactById (IStr ''111@c.us'')],
        Extracted ''Team'' 1
          [\<lparr>c_id = IStr ''111@c.us'', c_number = ''111'', c_name = ''Unknown'',
            c_isMyContact = False, c_isBusiness = None\<rparr>])"
  by (simp add: extractGroupContacts_def carried_client_def sample_client_def sample_chat_def
        enumerate_participants_def standard_methods_def contact_of_def basic_record_def before_at_def)

lemma fetching_run:
  "extractGroupContacts fetching_client ''team@g.us''
     = ([GetChatById ''team@g.us'', GetGroupMetadata ''team@g.us'', GetContactById (IStr ''111@c.us'')],
        Extracted ''Team'' 1
          [\<lparr>c_id = IStr ''111@c.us'', c_number = ''111'', c_name = ''Unknown'',
            c_isMyContact = False, c_isBusiness = None\<rparr>])"
  by (simp add: extractGroupContacts_def fetching_client_def sample_client_def sample_chat_def
        enumerate_participants_def standard_methods_def contact_of_def basic_record_def before_at_def)

lemma calling_run:
  "fst (extractGroupContacts calling_client ''team@g.us'')
     = [GetChatById ''team@g.us'', GetGroupMetadata ''team@g.us'', CallParticipants,
        GetContactById (IStr ''111@c.us'')]"
  by (simp add: extractGroupContacts_def calling_client_def sample_client_def sample_chat_def
        enumerate_participants_def standard_methods_def contact_of_def basic_record_def before_at_def)

lemma awaiting_run:
  "fst (extractGroupContacts awaiting_client ''team@g.us'')
     = [GetChatById ''team@g.us'', GetGroupMetadata ''team@g.us'', AwaitParticipants,
        GetContactById (IStr ''111@c.us'')]"
  by (simp add: extractGroupContacts_def awaiting_client_def sample_client_def sample_chat_def
        enumerate_participants_def standard_methods_def contact_of_def basic_record_def before_at_def)

lemma sample_clients_chat:
  "getChatById carried_client ''team@g.us'' = Inr (sample_chat\<lparr>gm_participants := Some [PString ''111@c.us'']\<rparr>)"
  "getChatById fetching_client ''team@g.us'' = Inr sample_chat"
  "getGroupMetadata fetching_client ''team@g.us'' = Inr (Some [PString ''111@c.us''])"
  "getChatById calling_client ''team@g.us''
     = Inr (sample_chat\<lparr>participants_prop := PropFunction (Inr (Some [PString ''111@c.us'']))\<rparr>)"
  "getGroupMetadata calling_client ''team@g.us'' = Inl (Error ''no metadata'')"
  "getChatById awaiting_client ''team@g.us''
     = Inr (sample_chat\<lparr>participants_prop := PropThenable (Inr (Some [PString ''111@c.us'']))\<rparr>)"
  "getGroupMetadata awaiting_client ''team@g.us'' = Inl (Error ''no metadata'')"
  by (simp_all add: carried_client_def fetching_client_def calling_client_def awaiting_client_def
        sample_client_def)

text \<open>
  Claim C3, as amended. In \<^verbatim>\<open>extractGroupContacts\<close>: when the chat carries a metadata
  participant array, the metadata fetch is never called. When it carries none and the
  fetch returns a non-empty list, that list is the one counted and turned into
  contacts, and neither the property nor the page is consulted. When it carries none
  and the fetch throws, a \<^verbatim>\<open>participants\<close> property that is a function is called, and one
  that is a thenable is awaited, right after the failed fetch and before anything else,
  the evaluation in the page included.
\<close>

theorem participant_fallback_order:
  "(getChatById cl groupId = Inr ch \<and> gm_participants ch = Some ps
      \<longrightarrow> GetGroupMetadata s \<notin> set (fst (extractGroupContacts cl groupId)))
   \<and> (getChatById cl groupId = Inr ch \<and> gm_participants ch = None
        \<and> getGroupMetadata cl (chat_sid ch) = Inr (Some ps) \<and> ps \<noteq> []
      \<longrightarrow> extractGroupContacts cl groupId
            = (GetChatById groupId # GetGroupMetadata (chat_sid ch)
                 # concat (map (\<lambda>p. fst (contact_of cl p)) ps),
               Extracted (chat_name ch) (length ps) (concat (map (\<lambda>p. snd (contact_of cl p)) ps))))
   \<and> (getChatById cl groupId = Inr ch \<and> gm_participants ch = None
        \<and> getGroupMetadata cl (chat_sid ch) = Inl e \<and> participants_prop ch = PropFunction r
      \<longrightarrow> (\<exists>rest. fst (extractGroupContacts cl groupId)
                    = [GetChatById groupId, GetGroupMetadata (chat_sid ch), CallParticipants] @ rest
                 \<and> CallParticipants \<notin> set rest))
   \<and> (getChatById cl groupId = Inr ch \<and> gm_participants ch = None
        \<and> getGroupMetadata cl (chat_sid ch) = Inl e \<and> participants_prop ch = PropThenable r
      \<longrightarrow> (\<exists>rest. fst (extractGroupContacts cl groupId)
                    = [GetChatById groupId, GetGroupMetadata (chat_sid ch), AwaitParticipants] @ rest
                 \<and> AwaitParticipants \<notin> set rest))"
proof (intro conjI impI)
  assume h: "getChatById cl groupId = Inr ch \<and> gm_participants ch = Some ps"
  then obtain tail where
    calls: "fst (extractGroupContacts cl groupId) = GetChatById groupId # fst (enumerate_participants cl ch) @ tail"
    and tail: "\<forall>c\<in>set tail. \<exists>i. c = GetContactById i"
    using extract_calls by blast
  have "GetGroupMetadata s \<notin> set (fst (enumerate_participants cl ch))"
    using enumerate_carried h by fastforce
  moreover have "GetGroupMetadata s \<notin> set tail"
    using tail by auto
  ultimately show "GetGroupMetadata s \<notin> set (fst (extractGroupContacts cl groupId))"
    by (simp add: calls)
next
  assume "getChatById cl groupId = Inr ch \<and> gm_participants ch = None
        \<and> getGroupMetadata cl (chat_sid ch) = Inr (Some ps) \<and> ps \<noteq> []"
  then show "extractGroupContacts cl groupId
            = (GetChatById groupId # GetGroupMetadata (chat_sid ch)
                 # concat (map (\<lambda>p. fst (contact_of cl p)) ps),
               Extracted (chat_name ch) (length ps) (concat (map (\<lambda>p. snd (contact_of cl p)) ps)))"
    by (simp add: extractGroupContacts_def enumerate_fetched)
next
  assume h: "getChatById cl groupId = Inr ch \<and> gm_participants ch = None
        \<and> getGroupMetadata cl (chat_sid ch) = Inl e \<and> participants_prop ch = PropFunction r"
  then obtain tail where
    calls: "fst (extractGroupContacts cl groupId) = GetChatById groupId # fst (enumerate_participants cl ch) @ tail"
    and tail: "\<forall>c\<in>set tail. \<exists>i. c = GetContactById i"
    using extract_calls by blast
  from h obtain rest where
    rest: "fst (enumerate_participants cl ch) = GetGroupMetadata (chat_sid ch) # CallParticipants # rest"
    and shape: "rest = [] \<or> rest = [Evaluate (chat_sid ch)]"
    using enumerate_property [of ch cl e] by auto
  have "CallParticipants \<notin> set (rest @ tail)"
    using shape tail by auto
  then show "\<exists>rest. fst (extractGroupContacts cl groupId)
                    = [GetChatById groupId, GetGroupMetadata (chat_sid ch), CallParticipants] @ rest
                 \<and> CallParticipants \<notin> set rest"
    by (intro exI [of _ "rest @ tail"]) (simp add: calls rest)
next
  assume h: "getChatById cl groupId = Inr ch \<and> gm_participants ch = None
        \<and> getGroupMetadata cl (chat_sid ch) = Inl e \<and> participants_prop ch = PropThenable r"
  then obtain tail where
    calls: "fst (extractGroupContacts cl groupId) = GetChatById groupId # fst (enumerate_participants cl ch) @ tail"
    and tail: "\<forall>c\<in>set tail. \<exists>i. c = GetContactById i"
    using extract_calls by blast
  from h obtain rest where
    rest: "fst (enumerate_participants cl ch) = GetGroupMetadata (chat_sid ch) # AwaitParticipants # rest"
    and shape: "rest = [] \<or> rest = [Evaluate (chat_sid ch)]"
    using enumerate_property [of ch cl e] by auto
  have "AwaitParticipants \<notin> set (rest @ tail)"
    using shape tail by auto
  then show "\<exists>rest. fst (extractGroupContacts cl groupId)
                    = [GetChatById groupId, GetGroupMetadata (chat_sid ch), AwaitParticipants] @ rest
                 \<and> AwaitParticipants \<notin> set rest"
    by (intro exI [of _ "rest @ tail"]) (simp add: calls rest)
qed

text \<open>The four sample clients meet the four hypotheses.\<close>

theorem participant_fallback_order_witness:
  "getChatById carried_client ''team@g.us'' = Inr (sample_chat\<lparr>gm_participants := Some [PString ''111@c.us'']\<rparr>)
   \<and> GetGroupMetadata ''team@g.us'' \<notin> set (fst (extractGroupContacts carried_client ''team@g.us''))
   \<and> getGroupMetadata fetching_client ''team@g.us'' = Inr (Some [PString ''111@c.us''])
   \<and> extractGroupContacts fetching_client ''team@g.us''
       = ([GetChatById ''team@g.us'', GetGroupMetadata ''team@g.us'', GetContactById (IStr ''111@c.us'')],
          Extracted ''Team'' 1
            [\<lparr>c_id = IStr ''111@c.us'', c_number = ''111'', c_name = ''Unknown'',
              c_isMyContact = False, c_isBusiness = None\<rparr>])
   \<and> getGroupMetadata calling_client ''team@g.us'' = Inl (Error ''no metadata'')
   \<and> fst (extractGroupContacts calling_client ''team@g.us'')
       = [GetChatById ''team@g.us'', GetGroupMetadata ''team@g.us'', CallParticipants]
         @ [GetContactById (IStr ''111@c.us'')]
   \<and> getGroupMetadata awaiting_client ''team@g.us'' = Inl (Error ''no metadata'')
   \<and> fst (extractGroupContacts awaiting_client ''team@g.us'')
       = [GetChatById ''team@g.us'', GetGroupMetadata ''team@g.us'', AwaitParticipants]
         @ [GetContactById (IStr ''111@c.us'')]"
  using participant_fallback_order [of carried_client "''team@g.us''"
          "sample_chat\<lparr>gm_participants := Some [PString ''111@c.us'']\<rparr>" "[PString ''111@c.us'']" "''team@g.us''"]
        participant_fallback_order [of fetching_client "''team@g.us''" sample_chat "[PString ''111@c.us'']"]
        participant_fallback_order [of calling_client "''team@g.us''"
          "sample_chat\<lparr>participants_prop := PropFunction (Inr (Some [PString ''111@c.us'']))\<rparr>" _ _
          "Error ''no metadata''" "Inr (Some [PString ''111@c.us''])"]
        participant_fallback_order [of awaiting_client "''team@g.us''"
          "sample_chat\<lparr>participants_prop := PropThenable (Inr (Some [PString ''111@c.us'']))\<rparr>" _ _
          "Error ''no metadata''" "Inr (Some [PString ''111@c.us''])"]
  by (simp add: sample_clients_chat carried_run fetching_run calling_run awaiting_run)

text \<open>
  Claim C3 as stated fails for a fetch that succeeds with an empty list: the code then
  asks the page, and the participants of the page are the ones returned.
\<close>

theorem participant_fallback_order_counterexample:
  "getChatById empty_fetch_client ''team@g.us'' = Inr sample_chat
   \<and> gm_participants sample_chat = None
   \<and> getGroupMetadata empty_fetch_client (chat_sid sample_chat) = Inr (Some [])
   \<and> extractGroupContacts empty_fetch_client ''team@g.us''
       = ([GetChatById ''team@g.us'', GetGroupMetadata ''team@g.us'', Evaluate ''team@g.us'',
           GetContactById (IStr ''999@c.us'')],
          Extracted ''Team'' 1
            [\<lparr>c_id = IStr ''999@c.us'', c_number = ''999'', c_name = ''Unknown'',
              c_isMyContact = False, c_isBusiness = None\<rparr>])"
  by (simp add: extractGroupContacts_def empty_fetch_client_def sample_client_def sample_chat_def
        enumerate_participants_def standard_methods_def contact_of_def basic_record_def before_at_def)

text \<open>
  A participant whose contact fetch throws gets the record with the name \<^verbatim>\<open>Unknown\<close>
  when the identifier the \<^verbatim>\<open>catch\<close> block computes is a string.
\<close>

lemma degraded_record:
  "participantId p = Some (IStr s) \<Longrightarrow> s \<noteq> [] \<Longrightarrow> getContactById cl (IStr s) = Inl err \<Longrightarrow>
   basic_id p = Some t \<Longrightarrow>
   contact_of cl p = ([GetContactById (IStr s)],
     [\<lparr>c_id = IStr t, c_number = before_at t, c_name = ''Unknown'',
       c_isMyContact = False, c_isBusiness = None\<rparr>])"
  by (simp add: contact_of_def basic_record_def)

text \<open>
  Claim C6 fails on the code. A participant that has a \<^verbatim>\<open>_serialized\<close> field and no
  \<^verbatim>\<open>id\<close> gets its identifier from the loop body, the contact fetch throws, and the
  \<^verbatim>\<open>catch\<close> block, which looks at \<^verbatim>\<open>id\<close> only, calls \<^verbatim>\<open>split\<close> on the participant
  object: the inner \<^verbatim>\<open>catch\<close> drops the participant. The group counts one participant
  and returns no contact.
\<close>

theorem serialized_only_participant_dropped:
  "participantId (PObject IdAbsent (Some ''123@c.us'')) = Some (IStr ''123@c.us'')
   \<and> getContactById serialized_only_client (IStr ''123@c.us'') = Inl (Error ''contact not found'')
   \<and> extractGroupContacts serialized_only_client ''team@g.us''
       = ([GetChatById ''team@g.us'', GetGroupMetadata ''team@g.us'', GetContactById (IStr ''123@c.us'')],
          Extracted ''Team'' 1 [])"
  by (simp add: extractGroupContacts_def serialized_only_client_def sample_client_def sample_chat_def
        enumerate_participants_def standard_methods_def contact_of_def basic_record_def before_at_def)

section \<open>Properties of the spreadsheet exporter\<close>

text \<open>
  Claim C8. Exporting the empty contact list writes a workbook with one worksheet, which
  holds the header row (Name, Number, Is Saved Contact, Is Business, WhatsApp ID) and
  no other row.
\<close>

theorem empty_export:
  "generateExcelFile join outputDir [] filename
     = (join outputDir filename,
        [(1, \<lparr>ws_name = ''Contacts'',
              ws_rows = [(1, [CStr ''Name'', CStr ''Number'', CStr ''Is Saved Contact'',
                              CStr ''Is Business'', CStr ''WhatsApp ID''])]\<rparr>)])"
  by (simp add: generateExcelFile_def contacts_sheet_def header_row_def)

end
